theory Spec2Isabelle
  imports
    Complex_Main
    "HOL-Library.Char_ord"
    "HOL-Library.List_Lexorder"
    "HOL-Library.Product_Lexorder"
begin

section \<open>Momentum detection of \<^verbatim>\<open>momentum_events.py\<close>\<close>

text \<open>
  The development embeds \<^verbatim>\<open>calculateExplosiveness\<close>, \<^verbatim>\<open>findGameMomentumEvents\<close> and
  \<^verbatim>\<open>calculateIntervalExplosivenessCategorical\<close>.

  Numbers. Python integers are \<^typ>\<open>int\<close>. A finite float64 is an exact rational
  (\<^typ>\<open>rat\<close>): rounding is not modelled. The special values that the code can produce
  are kept: the infinities of a division by zero are constructors of \<open>xreal\<close>, and NaN
  (pandas' missing value) is \<open>None\<close> of an \<open>xreal option\<close>.
\<close>

subsection \<open>Floats with infinities\<close>

datatype xreal = NegInf | Fin rat | PosInf

instantiation xreal :: linorder
begin

fun less_eq_xreal :: "xreal \<Rightarrow> xreal \<Rightarrow> bool" where
  "less_eq_xreal NegInf _ = True"
| "less_eq_xreal (Fin a) NegInf = False"
| "less_eq_xreal (Fin a) (Fin b) = (a \<le> b)"
| "less_eq_xreal (Fin a) PosInf = True"
| "less_eq_xreal PosInf NegInf = False"
| "less_eq_xreal PosInf (Fin b) = False"
| "less_eq_xreal PosInf PosInf = True"

definition less_xreal :: "xreal \<Rightarrow> xreal \<Rightarrow> bool" where
  "less_xreal a b = (a \<le> b \<and> \<not> b \<le> a)"

instance
proof
  fix x y z :: xreal
  show "(x < y) = (x \<le> y \<and> \<not> y \<le> x)"
    by (simp add: less_xreal_def)
  show "x \<le> x"
    by (cases x) simp_all
  show "x \<le> y \<Longrightarrow> y \<le> z \<Longrightarrow> x \<le> z"
    by (cases x; cases y; cases z) simp_all
  show "x \<le> y \<Longrightarrow> y \<le> x \<Longrightarrow> x = y"
    by (cases x; cases y) simp_all
  show "x \<le> y \<or> y \<le> x"
    by (cases x; cases y) auto
qed

end

text \<open>\<^verbatim>\<open>abs\<close> of a float.\<close>

fun xabs :: "xreal \<Rightarrow> xreal" where
  "xabs NegInf = PosInf"
| "xabs (Fin a) = Fin \<bar>a\<bar>"
| "xabs PosInf = PosInf"

text \<open>
  numpy's true division \<^verbatim>\<open>a / b\<close> of two finite numbers: a zero divisor gives an
  infinity of the sign of \<open>a\<close>, and NaN for \<open>0 / 0\<close>; nothing is raised.
\<close>

definition fdiv :: "rat \<Rightarrow> rat \<Rightarrow> xreal option" where
  "fdiv a b =
     (if b = 0 then (if a = 0 then None else if 0 < a then Some PosInf else Some NegInf)
      else Some (Fin (a / b)))"

text \<open>IEEE addition, for the sum behind a mean: opposite infinities give NaN.\<close>

fun xadd :: "xreal option \<Rightarrow> xreal \<Rightarrow> xreal option" where
  "xadd None _ = None"
| "xadd (Some (Fin a)) (Fin b) = Some (Fin (a + b))"
| "xadd (Some (Fin a)) NegInf = Some NegInf"
| "xadd (Some (Fin a)) PosInf = Some PosInf"
| "xadd (Some NegInf) PosInf = None"
| "xadd (Some NegInf) _ = Some NegInf"
| "xadd (Some PosInf) NegInf = None"
| "xadd (Some PosInf) _ = Some PosInf"

text \<open>The mean of a non-empty column of floats; the sum of no value is 0.\<close>

definition xmean :: "xreal list \<Rightarrow> xreal option" where
  "xmean xs =
     (case fold (\<lambda>x s. xadd s x) xs (Some (Fin 0)) of
        None \<Rightarrow> None
      | Some NegInf \<Rightarrow> Some NegInf
      | Some PosInf \<Rightarrow> Some PosInf
      | Some (Fin s) \<Rightarrow> fdiv s (of_nat (length xs)))"

text \<open>Python's \<^verbatim>\<open>int(x)\<close> of a float truncates towards zero.\<close>

definition py_int :: "rat \<Rightarrow> int" where
  "py_int x = (if 0 \<le> x then \<lfloor>x\<rfloor> else \<lceil>x\<rceil>)"

subsection \<open>The play-by-play table\<close>

text \<open>
  One row of the per-game table, with the columns the three functions read.
  \<^verbatim>\<open>eventClock\<close> is the float computed by \<^verbatim>\<open>pbp_data.eventClock\<close> (tenths of a second
  occur); the scores are taken after \<^verbatim>\<open>astype(int)\<close>.
\<close>

record event =
  gameid :: string
  eventClock :: rat
  scoreHome :: int
  scoreAway :: int

text \<open>
  The DataFrame: its rows, and the column \<^verbatim>\<open>score_diff\<close>, which the input need not
  have (\<open>None\<close>) and which \<^verbatim>\<open>calculateExplosiveness\<close> assigns.
\<close>

record frame =
  events :: "event list"
  score_diff :: "int list option"

datatype error = ValueError

text \<open>\<^verbatim>\<open>Series.max()\<close>: NaN (\<open>None\<close>) on an empty column.\<close>

fun series_max :: "'a::linorder list \<Rightarrow> 'a option" where
  "series_max [] = None"
| "series_max (x # xs) = Some (fold max xs x)"

subsection \<open>\<^verbatim>\<open>calculateExplosiveness\<close>\<close>

text \<open>
  \<^verbatim>\<open>groupby('eventClock')['score_diff'].last()\<close>: one entry per distinct clock value, in
  ascending order of the clock, holding the value of the last row with that clock.
\<close>

definition latestScores :: "(rat \<times> int) list \<Rightarrow> (rat \<times> int) list" where
  "latestScores col =
     map (\<lambda>k. (k, last (map snd (filter (\<lambda>(c, d). c = k) col))))
       (sort (remdups (map fst col)))"

text \<open>
  \<^verbatim>\<open>latestScores[latestScores.index < start_time].iloc[-1] if not ... .empty else 0\<close>
\<close>

definition scoreDiffStart :: "(rat \<times> int) list \<Rightarrow> int \<Rightarrow> int" where
  "scoreDiffStart latest start_time =
     (case filter (\<lambda>(c, d). c < of_int start_time) latest of
        [] \<Rightarrow> 0
      | x # xs \<Rightarrow> snd (last (x # xs)))"

text \<open>
  One label of \<^verbatim>\<open>latestScores.reindex(time_range, method='ffill')\<close>: the value at the
  last index not after \<open>t\<close>, and NaN when every index is after \<open>t\<close>.
\<close>

definition ffill :: "(rat \<times> int) list \<Rightarrow> int \<Rightarrow> int option" where
  "ffill latest t =
     (case filter (\<lambda>(c, d). c \<le> of_int t) latest of
        [] \<Rightarrow> None
      | x # xs \<Rightarrow> Some (snd (last (x # xs))))"

text \<open>
  \<^verbatim>\<open>(scoreDiffs - scoreDiffStart) / (scoreDiffs.index - start_time)\<close> at one label; NaN
  stays NaN.
\<close>

definition intensity_at :: "int option \<Rightarrow> int \<Rightarrow> int \<Rightarrow> int \<Rightarrow> xreal option" where
  "intensity_at v ref t start_time =
     (case v of
        None \<Rightarrow> None
      | Some d \<Rightarrow> fdiv (of_int (d - ref)) (of_int (t - start_time)))"

text \<open>
  The function returns the Series of intensities, indexed by the seconds of
  \<^verbatim>\<open>time_range\<close>, and leaves the frame with the column \<^verbatim>\<open>score_diff\<close> assigned.
  \<^verbatim>\<open>int(NaN)\<close> raises \<^verbatim>\<open>ValueError\<close> on a table without rows, before the assignment.
\<close>

definition calculateExplosiveness ::
  "frame \<Rightarrow> int \<Rightarrow> int \<Rightarrow> int \<Rightarrow> error + (frame \<times> (int \<times> xreal option) list)" where
  "calculateExplosiveness pbpGameData start_time time_min time_max =
     (case series_max (map eventClock (events pbpGameData)) of
        None \<Rightarrow> Inl ValueError
      | Some m \<Rightarrow>
          (let time_range = [start_time + time_min .. min (start_time + time_max) (py_int m)];
               diffs = map (\<lambda>e. scoreHome e - scoreAway e) (events pbpGameData);
               pbpGameData' = pbpGameData\<lparr>score_diff := Some diffs\<rparr>;
               latest = latestScores (zip (map eventClock (events pbpGameData')) diffs);
               ref = scoreDiffStart latest start_time
           in Inr (pbpGameData',
                   map (\<lambda>t. (t, intensity_at (ffill latest t) ref t start_time)) time_range)))"

subsection \<open>\<^verbatim>\<open>findGameMomentumEvents\<close>: the scan\<close>

text \<open>
  \<^verbatim>\<open>intensities[abs(intensities) >= explosivenessThreshold]\<close>: a comparison with NaN is
  false, so a kept sample has a value.
\<close>

definition significantMomentumIntervals ::
  "rat \<Rightarrow> (int \<times> xreal option) list \<Rightarrow> (int \<times> xreal) list" where
  "significantMomentumIntervals explosivenessThreshold intensities =
     concat (map (\<lambda>(t, v). case v of
                                None \<Rightarrow> []
                              | Some x \<Rightarrow> if Fin explosivenessThreshold \<le> xabs x then [(t, x)] else [])
                 intensities)"

datatype direction = negative_direction | positive_direction

text \<open>\<^verbatim>\<open>'negative' if intensity < 0 else 'positive'\<close>\<close>

definition direction_of :: "xreal \<Rightarrow> direction" where
  "direction_of x = (if x < Fin 0 then negative_direction else positive_direction)"

text \<open>\<^verbatim>\<open>'Away Momentum' if intensity < 0 else 'Home Momentum'\<close>\<close>

definition side_of :: "xreal \<Rightarrow> string" where
  "side_of x = (if x < Fin 0 then ''Away Momentum'' else ''Home Momentum'')"

text \<open>One dictionary appended to \<^verbatim>\<open>momentumEvents\<close>.\<close>

record momentum_event =
  game_id :: string
  build_up_start_time :: int
  momentum_start_time :: "int option"
  end_time :: int
  intensity :: xreal
  home_or_away :: string

text \<open>The variables that the \<^verbatim>\<open>for\<close> loop over the significant samples reads and assigns.\<close>

record walk_state =
  current_time :: int
  momentum_direction :: direction
  firstSignificant_time :: int
  momentumStartTime :: "int option"
  momentumEvents :: "momentum_event list"

text \<open>
  The \<^verbatim>\<open>for\<close> loop. The first equation is the loop running out of samples; in the
  second, the \<open>then\<close> branch is the reversal, which appends, assigns
  \<^verbatim>\<open>current_time = moment_time\<close> and breaks.
\<close>

fun walk :: "string \<Rightarrow> int \<Rightarrow> (int \<times> xreal) list \<Rightarrow> walk_state \<Rightarrow> walk_state" where
  "walk gid time_min [] s = s"
| "walk gid time_min ((moment_time, x) # rest) s =
     (let current_direction = direction_of x;
          s1 = (if momentumStartTime s = None \<and> time_min \<le> moment_time - current_time s
                   \<and> current_direction = momentum_direction s
                then s\<lparr>momentumStartTime := Some moment_time\<rparr> else s);
          ev = \<lparr>game_id = gid, build_up_start_time = current_time s1,
                momentum_start_time = momentumStartTime s1, end_time = moment_time,
                intensity = x, home_or_away = side_of x\<rparr>
      in if 1 < moment_time - firstSignificant_time s1
            \<and> current_direction \<noteq> momentum_direction s1
         then s1\<lparr>momentumEvents := momentumEvents s1 @ [ev], current_time := moment_time\<rparr>
         else walk gid time_min rest
                (s1\<lparr>momentumEvents := momentumEvents s1 @ [ev],
                    momentum_direction := current_direction,
                    firstSignificant_time := moment_time\<rparr>))"

text \<open>
  The body of the \<^verbatim>\<open>while\<close> loop, on the frame, the cursor \<^verbatim>\<open>current_time\<close> and the
  list \<^verbatim>\<open>momentumEvents\<close>. The assignment
  \<^verbatim>\<open>current_time = significantMomentumIntervals.index[-1] + 1\<close> follows the \<^verbatim>\<open>for\<close>
  statement and is not its \<^verbatim>\<open>else\<close> clause: it runs after a \<^verbatim>\<open>break\<close> too.
\<close>

definition scanIteration ::
  "rat \<Rightarrow> int \<Rightarrow> int \<Rightarrow> string \<Rightarrow> frame \<times> int \<times> momentum_event list
     \<Rightarrow> error + (frame \<times> int \<times> momentum_event list)" where
  "scanIteration explosivenessThreshold time_min time_max gid st =
     (case st of (pbpGameData, cur, evs) \<Rightarrow>
        (case calculateExplosiveness pbpGameData cur time_min time_max of
           Inl e \<Rightarrow> Inl e
         | Inr (pbpGameData', intensities) \<Rightarrow>
             (case significantMomentumIntervals explosivenessThreshold intensities of
                [] \<Rightarrow> Inr (pbpGameData', cur + 1, evs)
              | (t0, x0) # others \<Rightarrow>
                  (let sig = (t0, x0) # others;
                       s = walk gid time_min sig
                             \<lparr>current_time = cur, momentum_direction = direction_of x0,
                              firstSignificant_time = t0, momentumStartTime = None,
                              momentumEvents = evs\<rparr>;
                       s' = s\<lparr>current_time := fst (last sig) + 1\<rparr>
                   in Inr (pbpGameData', current_time s', momentumEvents s')))))"

text \<open>
  The \<^verbatim>\<open>while current_time <= game_duration\<close> loop. The first argument bounds the number
  of iterations: \<open>None\<close> is a loop that has not ended within that many.
\<close>

fun scan ::
  "nat \<Rightarrow> rat \<Rightarrow> int \<Rightarrow> int \<Rightarrow> string \<Rightarrow> int \<Rightarrow> frame \<times> int \<times> momentum_event list
     \<Rightarrow> (error + (frame \<times> momentum_event list)) option" where
  "scan 0 thr time_min time_max gid game_duration (f, cur, evs) =
     (if cur \<le> game_duration then None else Some (Inr (f, evs)))"
| "scan (Suc n) thr time_min time_max gid game_duration (f, cur, evs) =
     (if cur \<le> game_duration
      then (case scanIteration thr time_min time_max gid (f, cur, evs) of
              Inl e \<Rightarrow> Some (Inl e)
            | Inr st \<Rightarrow> scan n thr time_min time_max gid game_duration st)
      else Some (Inr (f, evs)))"

subsection \<open>\<^verbatim>\<open>findGameMomentumEvents\<close>: the aggregation\<close>

text \<open>One row of the aggregated DataFrame.\<close>

record episode =
  ep_game_id :: string
  ep_build_up_start_time :: int
  ep_momentum_start_time :: "int option"
  ep_end_time :: int
  duration :: "int option"
  avg_intensity :: "xreal option"
  peak_intensity_max :: xreal
  peak_intensity_min :: xreal
  ep_home_or_away :: string

text \<open>\<^verbatim>\<open>aggfunc='min'\<close> on a column with missing values skips them.\<close>

definition min_skipna :: "int option list \<Rightarrow> int option" where
  "min_skipna col =
     (case concat (map (\<lambda>v. case v of None \<Rightarrow> [] | Some t \<Rightarrow> [t]) col) of
        [] \<Rightarrow> None
      | t # ts \<Rightarrow> Some (fold min ts t))"

text \<open>
  The named aggregations over one group, and the column \<^verbatim>\<open>duration\<close> computed from the
  aggregated columns. \<^verbatim>\<open>aggfunc='max'\<close> on the strings of \<^verbatim>\<open>home_or_away\<close> is the
  greatest string.
\<close>

fun aggregate_group :: "int \<Rightarrow> momentum_event list \<Rightarrow> episode list" where
  "aggregate_group k [] = []"
| "aggregate_group k (r # rs) =
     (let start = min_skipna (map momentum_start_time (r # rs));
          stop = fold max (map end_time rs) (end_time r)
      in [\<lparr>ep_game_id = game_id r,
           ep_build_up_start_time = k,
           ep_momentum_start_time = start,
           ep_end_time = stop,
           duration = map_option (\<lambda>t. stop - t) start,
           avg_intensity = xmean (map intensity (r # rs)),
           peak_intensity_max = fold max (map intensity rs) (intensity r),
           peak_intensity_min = fold min (map intensity rs) (intensity r),
           ep_home_or_away = fold max (map home_or_away rs) (home_or_away r)\<rparr>])"

text \<open>\<^verbatim>\<open>groupby('build_up_start_time')\<close>: one group per key, keys ascending.\<close>

definition aggregate :: "momentum_event list \<Rightarrow> episode list" where
  "aggregate momentumDataframe =
     concat (map (\<lambda>k. aggregate_group k
                         (filter (\<lambda>r. build_up_start_time r = k) momentumDataframe))
                 (sort (remdups (map build_up_start_time momentumDataframe))))"

text \<open>
  The whole function, with the bound on the iterations of its loop as first argument.
  \<^verbatim>\<open>int(max(max_event_time, 2880))\<close> raises on a table without rows, where the maximum
  is NaN. The result is the table as the calls of \<^verbatim>\<open>calculateExplosiveness\<close> left it, and
  the rows of the returned DataFrame.
\<close>

definition findGameMomentumEvents ::
  "nat \<Rightarrow> frame \<Rightarrow> rat \<Rightarrow> int \<Rightarrow> int \<Rightarrow> (error + (frame \<times> episode list)) option" where
  "findGameMomentumEvents fuel pbpGameData explosivenessThreshold time_min time_max =
     (case (series_max (map eventClock (events pbpGameData)),
            series_max (map gameid (events pbpGameData))) of
        (Some max_event_time, Some gid) \<Rightarrow>
          (let game_duration = py_int (max max_event_time 2880)
           in case scan fuel explosivenessThreshold time_min time_max gid game_duration
                     (pbpGameData, 1, []) of
                None \<Rightarrow> None
              | Some (Inl e) \<Rightarrow> Some (Inl e)
              | Some (Inr (pbpGameData', evs)) \<Rightarrow>
                  Some (Inr (pbpGameData', if evs \<noteq> [] then aggregate evs else [])))
      | _ \<Rightarrow> Some (Inl ValueError))"

subsection \<open>\<^verbatim>\<open>calculateIntervalExplosivenessCategorical\<close>\<close>

text \<open>
  One row of \<^verbatim>\<open>gameData\<close>: the input row with the three window columns and
  \<^verbatim>\<open>score_diff\<close>. The interval number is a float with an integral value, kept as an
  \<^typ>\<open>int\<close>.
\<close>

record window_event =
  w_gameid :: string
  w_score_diff :: int
  w_time_window :: int
  w_window_start :: rat
  w_window_end :: rat

text \<open>\<^verbatim>\<open>max_event_time % time_window == 0\<close> on floats.\<close>

definition divides_clock :: "int \<Rightarrow> rat \<Rightarrow> bool" where
  "divides_clock time_window m = (of_int \<lfloor>m / of_int time_window\<rfloor> * of_int time_window = m)"

text \<open>
  The columns of one row, in the order of the source: the interval number
  \<^verbatim>\<open>((eventClock - 1) // time_window) + 1\<close>, the window bounds computed from it, the
  adjustment of the interval number at the maximal clock, the clamp of
  \<^verbatim>\<open>window_end\<close> to the maximal clock, and the three \<^verbatim>\<open>np.where\<close> on interval
  number 0, all of which read the interval number before \<^verbatim>\<open>assign\<close> replaces it.
\<close>

definition window_columns :: "int \<Rightarrow> rat \<Rightarrow> event \<Rightarrow> window_event" where
  "window_columns time_window max_event_time e =
     (let tw0 = \<lfloor>(eventClock e - 1) / of_int time_window\<rfloor> + 1;
          window_start = (of_int tw0 - 1) * of_int time_window;
          window_end = of_int tw0 * of_int time_window;
          tw = (if divides_clock time_window max_event_time \<and> eventClock e = max_event_time
                then \<lfloor>max_event_time / of_int time_window\<rfloor> else tw0);
          window_end' = (if max_event_time < window_end then max_event_time else window_end)
      in \<lparr>w_gameid = gameid e,
          w_score_diff = scoreHome e - scoreAway e,
          w_time_window = (if tw = 0 then 1 else tw),
          w_window_start = (if tw = 0 then 0 else window_start),
          w_window_end = (if tw = 0 then of_int time_window else window_end')\<rparr>)"

text \<open>
  The function applied to each group:
  \<^verbatim>\<open>(score_diff.iloc[-1] - score_diff.iloc[0]) / (window_end.iloc[0] - window_start.iloc[0])\<close>
\<close>

fun group_intensity :: "window_event list \<Rightarrow> xreal option" where
  "group_intensity [] = None"
| "group_intensity (x # xs) =
     fdiv (of_int (w_score_diff (last (x # xs)) - w_score_diff x))
          (w_window_end x - w_window_start x)"

text \<open>
  \<^verbatim>\<open>pd.cut\<close> with the ten right-closed bins: NaN has no category, and neither has
  \<open>-inf\<close>, which the first bin \<open>(-inf, -0.08]\<close> leaves out.
\<close>

definition momentum_category_of :: "xreal option \<Rightarrow> nat option" where
  "momentum_category_of v =
     (case v of
        None \<Rightarrow> None
      | Some NegInf \<Rightarrow> None
      | Some PosInf \<Rightarrow> Some 10
      | Some (Fin r) \<Rightarrow>
          Some (if r \<le> - (8 / 100) then 1 else if r \<le> - (6 / 100) then 2
                else if r \<le> - (4 / 100) then 3 else if r \<le> - (2 / 100) then 4
                else if r \<le> 0 then 5 else if r \<le> 2 / 100 then 6
                else if r \<le> 4 / 100 then 7 else if r \<le> 6 / 100 then 8
                else if r \<le> 8 / 100 then 9 else 10))"

text \<open>One row of the returned DataFrame.\<close>

record interval_label =
  il_gameid :: string
  il_time_window :: int
  momentum_intensity :: "xreal option"
  momentum_category :: "nat option"

text \<open>
  \<^verbatim>\<open>groupby(['gameid', 'time_window']).apply(...)\<close>: one row per pair of keys that
  occurs in \<^verbatim>\<open>gameData\<close>, pairs ascending. Two inputs are left out of the model
  (\<open>None\<close>): \<^verbatim>\<open>time_window = 0\<close>, where the floor division gives infinite and NaN
  interval numbers, and a table without rows.
\<close>

definition calculateIntervalExplosivenessCategorical ::
  "frame \<Rightarrow> int \<Rightarrow> interval_label list option" where
  "calculateIntervalExplosivenessCategorical pbpGameData time_window =
     (case series_max (map eventClock (events pbpGameData)) of
        None \<Rightarrow> None
      | Some max_event_time \<Rightarrow>
          if time_window = 0 then None
          else
            (let gameData = map (window_columns time_window max_event_time) (events pbpGameData);
                 keys = sort (remdups (map (\<lambda>x. (w_gameid x, w_time_window x)) gameData))
             in Some (map (\<lambda>(g, k).
                        (let v = group_intensity
                                   (filter (\<lambda>x. w_gameid x = g \<and> w_time_window x = k) gameData)
                         in \<lparr>il_gameid = g, il_time_window = k, momentum_intensity = v,
                             momentum_category = momentum_category_of v\<rparr>))
                      keys)))"

subsection \<open>Example games\<close>

text \<open>
  Tables used to evaluate the functions. \<open>pbp\<close> is one row of game 0022300001.
\<close>

definition pbp :: "rat \<Rightarrow> int \<Rightarrow> int \<Rightarrow> event" where
  "pbp clock home away =
     \<lparr>gameid = ''0022300001'', eventClock = clock, scoreHome = home, scoreAway = away\<rparr>"

definition game_reversal :: frame where
  "game_reversal =
     \<lparr>events = [pbp 0 0 0, pbp 3 3 0, pbp 5 3 3, pbp 7 3 9, pbp 30 3 9], score_diff = None\<rparr>"

definition game_short :: frame where
  "game_short = \<lparr>events = [pbp 0 0 0, pbp 100 2 0], score_diff = None\<rparr>"

definition game_late_first_event :: frame where
  "game_late_first_event = \<lparr>events = [pbp 50 2 0, pbp 100 2 0], score_diff = None\<rparr>"

definition game_flat :: frame where
  "game_flat = \<lparr>events = [pbp 0 0 0, pbp 1440 0 0, pbp 2880 0 0], score_diff = None\<rparr>"

definition game_sparse :: frame where
  "game_sparse = \<lparr>events = [pbp 0 0 0, pbp 60 2 0, pbp 2790 98 96, pbp 2880 100 98], score_diff = None\<rparr>"

text \<open>
  The three dictionaries that the first iteration of the scan appends on
  \<open>game_reversal\<close> with threshold 1/2 and look-ahead 2 to 8.
\<close>

definition reversal_records :: "momentum_event list" where
  "reversal_records =
     [\<lparr>game_id = ''0022300001'', build_up_start_time = 1, momentum_start_time = Some 3,
       end_time = 3, intensity = Fin (3 / 2), home_or_away = ''Home Momentum''\<rparr>,
      \<lparr>game_id = ''0022300001'', build_up_start_time = 1, momentum_start_time = Some 3,
       end_time = 4, intensity = Fin 1, home_or_away = ''Home Momentum''\<rparr>,
      \<lparr>game_id = ''0022300001'', build_up_start_time = 1, momentum_start_time = Some 3,
       end_time = 7, intensity = Fin (- 1), home_or_away = ''Away Momentum''\<rparr>]"

text \<open>
  The row that the aggregation makes of them.
\<close>

definition reversal_episode :: episode where
  "reversal_episode =
     \<lparr>ep_game_id = ''0022300001'', ep_build_up_start_time = 1, ep_momentum_start_time = Some 3,
      ep_end_time = 7, duration = Some 4, avg_intensity = Some (Fin (1 / 2)),
      peak_intensity_max = Fin (3 / 2), peak_intensity_min = Fin (- 1),
      ep_home_or_away = ''Home Momentum''\<rparr>"

section \<open>Properties of the evaluator\<close>

lemma series_max_eq_None: "series_max xs = None \<longleftrightarrow> xs = []"
  by (cases xs) simp_all

lemma fold_max_Max: "fold max xs x = Max (set (x # xs))"
  by (simp only: Max.set_eq_fold)

lemma fold_min_Min: "fold min xs x = Min (set (x # xs))"
  by (simp only: Min.set_eq_fold)

lemma series_max_Some_Max: "series_max xs = Some m \<Longrightarrow> xs \<noteq> [] \<and> m = Max (set xs)"
  by (cases xs) (auto simp: fold_max_Max)

lemma series_max_gameid:
  assumes "series_max (map eventClock (events f)) = Some m"
  shows "\<exists>gid. series_max (map gameid (events f)) = Some gid"
  using assms by (cases "events f") simp_all

lemma latestScores_keys: "set (map fst (latestScores col)) = set (map fst col)"
  by (simp add: latestScores_def comp_def)

lemma latestScores_values:
  assumes "(k, d) \<in> set (latestScores col)"
  shows "d \<in> snd ` set col"
proof -
  from assms have k: "k \<in> fst ` set col"
    and d: "d = last (map snd (filter (\<lambda>(c, d). c = k) col))"
    by (auto simp: latestScores_def)
  from k have "filter (\<lambda>(c, d). c = k) col \<noteq> []"
    by (auto simp: filter_empty_conv)
  then have "last (map snd (filter (\<lambda>(c, d). c = k) col)) \<in> set (map snd (filter (\<lambda>(c, d). c = k) col))"
    by (intro last_in_set) simp
  with d show ?thesis by auto
qed

lemma ffill_None:
  assumes "\<forall>c\<in>set (map fst latest). of_int t < c"
  shows "ffill latest t = None"
proof -
  have "filter (\<lambda>(c, d). c \<le> of_int t) latest = []"
    using assms by (auto simp: filter_empty_conv)
  then show ?thesis by (simp add: ffill_def)
qed

lemma ffill_value:
  assumes "ffill latest t = Some d"
  shows "d \<in> snd ` set latest"
proof -
  from assms obtain x xs where f: "filter (\<lambda>(c, d). c \<le> of_int t) latest = x # xs"
    and d: "d = snd (last (x # xs))"
    by (auto simp: ffill_def split: list.splits)
  have "last (x # xs) \<in> set (x # xs)" by (rule last_in_set) simp
  then have "last (x # xs) \<in> set latest" unfolding f [symmetric] by simp
  with d show ?thesis by blast
qed

lemma scoreDiffStart_value:
  "scoreDiffStart latest s = 0 \<or> scoreDiffStart latest s \<in> snd ` set latest"
proof (cases "filter (\<lambda>(c, d). c < of_int s) latest")
  case Nil
  then show ?thesis by (simp add: scoreDiffStart_def)
next
  case (Cons x xs)
  have "last (x # xs) \<in> set (x # xs)" by (rule last_in_set) simp
  then have "last (x # xs) \<in> set latest" unfolding Cons [symmetric] by simp
  then show ?thesis using Cons by (auto simp: scoreDiffStart_def)
qed

lemma calculateExplosiveness_Inr:
  assumes "calculateExplosiveness f s a b = Inr (f', ser)"
  obtains m where "series_max (map eventClock (events f)) = Some m"
    and "f' = f\<lparr>score_diff := Some (map (\<lambda>e. scoreHome e - scoreAway e) (events f))\<rparr>"
    and "ser = map (\<lambda>t. (t, intensity_at
            (ffill (latestScores (zip (map eventClock (events f))
                      (map (\<lambda>e. scoreHome e - scoreAway e) (events f)))) t)
            (scoreDiffStart (latestScores (zip (map eventClock (events f))
                      (map (\<lambda>e. scoreHome e - scoreAway e) (events f)))) s) t s))
          [s + a .. min (s + b) (py_int m)]"
  using assms
  by (auto simp: calculateExplosiveness_def Let_def split: option.splits)

lemma calculateExplosiveness_total:
  assumes "events f \<noteq> []"
  shows "\<exists>f' ser. calculateExplosiveness f s a b = Inr (f', ser)"
  using assms
  by (cases "series_max (map eventClock (events f))")
     (auto simp: calculateExplosiveness_def Let_def series_max_eq_None)

lemma calculateExplosiveness_times:
  assumes "calculateExplosiveness pbpGameData cur time_min time_max = Inr (f', ser)"
  shows "\<exists>m. series_max (map eventClock (events pbpGameData)) = Some m \<and>
             map fst ser = [cur + time_min .. min (cur + time_max) (py_int m)]"
  using assms by (auto elim!: calculateExplosiveness_Inr simp: comp_def)

lemma before_first_event_None:
  assumes "calculateExplosiveness pbpGameData start_time time_min time_max = Inr (f', ser)"
    and "(t, v) \<in> set ser"
    and "\<forall>e\<in>set (events pbpGameData). of_int t < eventClock e"
  shows "v = None"
proof -
  let ?diffs = "map (\<lambda>e. scoreHome e - scoreAway e) (events pbpGameData)"
  let ?latest = "latestScores (zip (map eventClock (events pbpGameData)) ?diffs)"
  have keys: "set (map fst ?latest) = eventClock ` set (events pbpGameData)"
    by (simp add: latestScores_keys map_fst_zip del: set_map) simp
  have "ffill ?latest t = None"
    by (rule ffill_None) (use assms(3) keys in auto)
  moreover have "v = intensity_at (ffill ?latest t) (scoreDiffStart ?latest start_time) t start_time"
    using assms(1,2) by (auto elim!: calculateExplosiveness_Inr)
  ultimately show "v = None" by (simp add: intensity_at_def)
qed

lemma calculateExplosiveness_effect:
  assumes "calculateExplosiveness pbpGameData start_time time_min time_max = Inr (f', ser)"
  shows "events f' = events pbpGameData \<and>
         score_diff f' = Some (map (\<lambda>e. scoreHome e - scoreAway e) (events pbpGameData)) \<and>
         calculateExplosiveness f' start_time time_min time_max = Inr (f', ser) \<and>
         (\<forall>g. events g = events pbpGameData \<longrightarrow>
            (\<exists>g'. calculateExplosiveness g start_time time_min time_max = Inr (g', ser)))"
proof -
  from assms obtain m where m: "series_max (map eventClock (events pbpGameData)) = Some m"
    and f': "f' = pbpGameData\<lparr>score_diff := Some (map (\<lambda>e. scoreHome e - scoreAway e) (events pbpGameData))\<rparr>"
    by (rule calculateExplosiveness_Inr)
  have same: "calculateExplosiveness g start_time time_min time_max
                = Inr (g\<lparr>score_diff := Some (map (\<lambda>e. scoreHome e - scoreAway e) (events g))\<rparr>, ser)"
    if "events g = events pbpGameData" for g
    using assms m that by (simp add: calculateExplosiveness_def Let_def)
  have "events f' = events pbpGameData"
    by (simp add: f')
  moreover have "score_diff f' = Some (map (\<lambda>e. scoreHome e - scoreAway e) (events pbpGameData))"
    by (simp add: f')
  moreover have "calculateExplosiveness f' start_time time_min time_max = Inr (f', ser)"
    using same [of f'] by (simp add: f')
  moreover have "\<exists>g'. calculateExplosiveness g start_time time_min time_max = Inr (g', ser)"
    if "events g = events pbpGameData" for g
    using same [OF that] by blast
  ultimately show ?thesis by blast
qed

text \<open>
  On a table whose rows all have equal scores, every intensity that is not NaN is 0.
\<close>

lemma flat_intensity:
  assumes "\<forall>e\<in>set (events f). scoreHome e = scoreAway e"
    and "calculateExplosiveness f c a b = Inr (f', ser)"
    and "(t, Some x) \<in> set ser"
  shows "x = Fin 0"
proof -
  let ?diffs = "map (\<lambda>e. scoreHome e - scoreAway e) (events f)"
  let ?latest = "latestScores (zip (map eventClock (events f)) ?diffs)"
  have zero: "d = 0" if "d \<in> snd ` set ?latest" for d
  proof -
    from that obtain k where "(k, d) \<in> set ?latest" by auto
    then have "d \<in> snd ` set (zip (map eventClock (events f)) ?diffs)"
      by (rule latestScores_values)
    then have "d \<in> set ?diffs" by (auto dest: set_zip_rightD)
    with assms(1) show ?thesis by auto
  qed
  have ref: "scoreDiffStart ?latest c = 0"
    using scoreDiffStart_value [of ?latest c] zero by blast
  from assms(2,3) have x: "Some x = intensity_at (ffill ?latest t) (scoreDiffStart ?latest c) t c"
    by (auto elim!: calculateExplosiveness_Inr)
  then obtain d where d: "ffill ?latest t = Some d"
    by (cases "ffill ?latest t") (simp_all add: intensity_at_def)
  then have "d = 0" using ffill_value zero by blast
  with x d ref show ?thesis
    by (simp add: intensity_at_def fdiv_def split: if_splits)
qed

section \<open>Properties of the scan\<close>

lemma significant_mem:
  "(t, x) \<in> set (significantMomentumIntervals thr ser) \<longleftrightarrow> (t, Some x) \<in> set ser \<and> Fin thr \<le> xabs x"
  by (auto simp: significantMomentumIntervals_def split: option.splits if_splits)

lemma significant_Nil:
  "significantMomentumIntervals thr ser = [] \<longleftrightarrow> (\<forall>t x. (t, Some x) \<in> set ser \<longrightarrow> \<not> Fin thr \<le> xabs x)"
proof
  assume "significantMomentumIntervals thr ser = []"
  then show "\<forall>t x. (t, Some x) \<in> set ser \<longrightarrow> \<not> Fin thr \<le> xabs x"
    using significant_mem [of _ _ thr ser] by simp
next
  assume h: "\<forall>t x. (t, Some x) \<in> set ser \<longrightarrow> \<not> Fin thr \<le> xabs x"
  show "significantMomentumIntervals thr ser = []"
  proof (rule ccontr)
    assume "significantMomentumIntervals thr ser \<noteq> []"
    then have "hd (significantMomentumIntervals thr ser) \<in> set (significantMomentumIntervals thr ser)"
      by (rule hd_in_set)
    then obtain p where "p \<in> set (significantMomentumIntervals thr ser)" ..
    then show False using h significant_mem [of "fst p" "snd p" thr ser] by auto
  qed
qed

lemma sample_time_bounds:
  assumes "calculateExplosiveness f cur tmin tmax = Inr (f', ser)"
    and "(t, v) \<in> set ser"
  shows "cur + tmin \<le> t \<and> t \<le> cur + tmax"
proof -
  from calculateExplosiveness_times [OF assms(1)] obtain m where
    "map fst ser = [cur + tmin .. min (cur + tmax) (py_int m)]" by blast
  moreover have "t \<in> set (map fst ser)" using assms(2) by force
  ultimately show ?thesis by auto
qed

lemma sample_finite:
  assumes "calculateExplosiveness f cur tmin tmax = Inr (f', ser)"
    and "(t, Some x) \<in> set ser" and "t \<noteq> cur"
  shows "\<exists>q. x = Fin q"
  using assms
  by (auto elim!: calculateExplosiveness_Inr simp: intensity_at_def fdiv_def split: option.splits)

text \<open>
  The \<^verbatim>\<open>for\<close> loop only appends, and every dictionary it appends carries the cursor it
  started from, one of the significant samples, and the side of that sample's sign.
\<close>

lemma walk_events:
  "\<exists>new. momentumEvents (walk gid tmin sig s) = momentumEvents s @ new \<and>
     (\<forall>r\<in>set new. game_id r = gid \<and> build_up_start_time r = current_time s \<and>
        (end_time r, intensity r) \<in> set sig \<and> home_or_away r = side_of (intensity r))"
proof (induction sig arbitrary: s)
  case Nil
  then show ?case by simp
next
  case (Cons a sig)
  obtain t x where a: "a = (t, x)" by (cases a)
  define s1 where "s1 = (if momentumStartTime s = None \<and> tmin \<le> t - current_time s
                   \<and> direction_of x = momentum_direction s
                then s\<lparr>momentumStartTime := Some t\<rparr> else s)"
  define ev where "ev = \<lparr>game_id = gid, build_up_start_time = current_time s1,
                momentum_start_time = momentumStartTime s1, end_time = t,
                intensity = x, home_or_away = side_of x\<rparr>"
  define s2 where "s2 = s1\<lparr>momentumEvents := momentumEvents s1 @ [ev],
                    momentum_direction := direction_of x,
                    firstSignificant_time := t\<rparr>"
  have s1: "current_time s1 = current_time s" "momentumEvents s1 = momentumEvents s"
    by (simp_all add: s1_def)
  have ev: "game_id ev = gid" "build_up_start_time ev = current_time s" "end_time ev = t"
    "intensity ev = x" "home_or_away ev = side_of x"
    by (simp_all add: ev_def s1)
  show ?case
  proof (cases "1 < t - firstSignificant_time s1 \<and> direction_of x \<noteq> momentum_direction s1")
    case True
    then have "walk gid tmin (a # sig) s
                 = s1\<lparr>momentumEvents := momentumEvents s1 @ [ev], current_time := t\<rparr>"
      unfolding a by (simp add: Let_def s1_def [symmetric] ev_def [symmetric])
    then have "momentumEvents (walk gid tmin (a # sig) s) = momentumEvents s @ [ev]"
      by (simp add: s1)
    then show ?thesis using ev a by auto
  next
    case False
    then have w: "walk gid tmin (a # sig) s = walk gid tmin sig s2"
      unfolding a by (auto simp add: Let_def s1_def [symmetric] ev_def [symmetric] s2_def [symmetric])
    have s2: "current_time s2 = current_time s" "momentumEvents s2 = momentumEvents s @ [ev]"
      by (simp_all add: s2_def s1)
    from Cons.IH [of s2] obtain new where
      new: "momentumEvents (walk gid tmin sig s2) = momentumEvents s2 @ new"
        "\<forall>r\<in>set new. game_id r = gid \<and> build_up_start_time r = current_time s2 \<and>
            (end_time r, intensity r) \<in> set sig \<and> home_or_away r = side_of (intensity r)"
      by blast
    have "momentumEvents (walk gid tmin (a # sig) s) = momentumEvents s @ (ev # new)"
      by (simp add: w new(1) s2)
    moreover have "\<forall>r\<in>set (ev # new). game_id r = gid \<and> build_up_start_time r = current_time s \<and>
            (end_time r, intensity r) \<in> set (a # sig) \<and> home_or_away r = side_of (intensity r)"
      using new(2) ev a s2 by auto
    ultimately show ?thesis by blast
  qed
qed

lemma scanIteration_Inr:
  assumes "scanIteration thr tmin tmax gid (f, cur, evs) = Inr (f', cur', evs')"
  shows "\<exists>ser new. calculateExplosiveness f cur tmin tmax = Inr (f', ser) \<and> evs' = evs @ new \<and>
     (\<forall>r\<in>set new. game_id r = gid \<and> build_up_start_time r = cur \<and>
        (end_time r, intensity r) \<in> set (significantMomentumIntervals thr ser) \<and>
        home_or_away r = side_of (intensity r)) \<and>
     (significantMomentumIntervals thr ser = [] \<longrightarrow> cur' = cur + 1 \<and> new = []) \<and>
     (significantMomentumIntervals thr ser \<noteq> [] \<longrightarrow>
        cur' = fst (last (significantMomentumIntervals thr ser)) + 1)"
proof -
  from assms obtain ser where c: "calculateExplosiveness f cur tmin tmax = Inr (f', ser)"
    by (auto simp: scanIteration_def Let_def split: sum.splits list.splits)
  show ?thesis
  proof (cases "significantMomentumIntervals thr ser")
    case Nil
    then show ?thesis using assms c by (simp add: scanIteration_def)
  next
    case (Cons a others)
    obtain t0 x0 where a: "a = (t0, x0)" by (cases a)
    define s where "s = \<lparr>current_time = cur, momentum_direction = direction_of x0,
                              firstSignificant_time = t0, momentumStartTime = None,
                              momentumEvents = evs\<rparr>"
    from assms c Cons a have r: "cur' = fst (last (a # others)) + 1"
      "evs' = momentumEvents (walk gid tmin (a # others) s)"
      by (simp_all add: scanIteration_def Let_def s_def)
    from walk_events [of gid tmin "a # others" s] obtain new where
      "momentumEvents (walk gid tmin (a # others) s) = momentumEvents s @ new"
      "\<forall>r\<in>set new. game_id r = gid \<and> build_up_start_time r = current_time s \<and>
        (end_time r, intensity r) \<in> set (a # others) \<and> home_or_away r = side_of (intensity r)"
      by blast
    then show ?thesis using r c Cons by (auto simp: s_def)
  qed
qed

lemma scanIteration_total:
  assumes "events f \<noteq> []"
  shows "\<exists>f' cur' evs'. scanIteration thr tmin tmax gid (f, cur, evs) = Inr (f', cur', evs')"
proof -
  from calculateExplosiveness_total [OF assms] obtain f' ser
    where "calculateExplosiveness f cur tmin tmax = Inr (f', ser)" by blast
  then show ?thesis
    by (simp add: scanIteration_def Let_def split: list.splits) 
qed

lemma scanIteration_events:
  assumes "scanIteration thr tmin tmax gid (f, cur, evs) = Inr (f', cur', evs')"
  shows "events f' = events f"
proof -
  from scanIteration_Inr [OF assms] obtain ser where
    "calculateExplosiveness f cur tmin tmax = Inr (f', ser)" by blast
  then show ?thesis by (auto elim!: calculateExplosiveness_Inr)
qed

lemma scanIteration_records:
  assumes "scanIteration thr tmin tmax gid (f, cur, evs) = Inr (f', cur', evs')"
  shows "\<exists>new. evs' = evs @ new \<and>
     (\<forall>r\<in>set new. game_id r = gid \<and> build_up_start_time r = cur \<and>
        cur + tmin \<le> end_time r \<and> end_time r \<le> cur + tmax \<and>
        Fin thr \<le> xabs (intensity r) \<and>
        home_or_away r = side_of (intensity r) \<and>
        (end_time r \<noteq> cur \<longrightarrow> (\<exists>q. intensity r = Fin q)))"
proof -
  from scanIteration_Inr [OF assms] obtain ser new where
    c: "calculateExplosiveness f cur tmin tmax = Inr (f', ser)" and new: "evs' = evs @ new"
    and r: "\<forall>r\<in>set new. game_id r = gid \<and> build_up_start_time r = cur \<and>
        (end_time r, intensity r) \<in> set (significantMomentumIntervals thr ser) \<and>
        home_or_away r = side_of (intensity r)"
    by blast
  have "cur + tmin \<le> end_time r \<and> end_time r \<le> cur + tmax \<and> Fin thr \<le> xabs (intensity r) \<and>
        (end_time r \<noteq> cur \<longrightarrow> (\<exists>q. intensity r = Fin q))" if "r \<in> set new" for r
  proof -
    from r that have "(end_time r, Some (intensity r)) \<in> set ser" "Fin thr \<le> xabs (intensity r)"
      by (simp_all add: significant_mem)
    then show ?thesis
      using sample_time_bounds [OF c] sample_finite [OF c] by blast
  qed
  with new r show ?thesis by blast
qed

lemma scanIteration_cursor:
  assumes "scanIteration thr tmin tmax gid (f, cur, evs) = Inr (f', cur', evs')"
  shows "\<exists>ser. calculateExplosiveness f cur tmin tmax = Inr (f', ser) \<and>
     (if significantMomentumIntervals thr ser = [] then cur' = cur + 1
      else \<exists>t v. (t, v) \<in> set ser \<and> cur + tmin \<le> t \<and> cur' = t + 1)"
proof -
  from scanIteration_Inr [OF assms] obtain ser where
    c: "calculateExplosiveness f cur tmin tmax = Inr (f', ser)"
    and n: "significantMomentumIntervals thr ser = [] \<longrightarrow> cur' = cur + 1"
      "significantMomentumIntervals thr ser \<noteq> [] \<longrightarrow>
         cur' = fst (last (significantMomentumIntervals thr ser)) + 1"
    by blast
  show ?thesis
  proof (cases "significantMomentumIntervals thr ser = []")
    case True
    with c n show ?thesis by auto
  next
    case False
    define p where "p = last (significantMomentumIntervals thr ser)"
    have "p \<in> set (significantMomentumIntervals thr ser)"
      unfolding p_def using False by (rule last_in_set)
    then have "(fst p, Some (snd p)) \<in> set ser"
      using significant_mem [of "fst p" "snd p" thr ser] by simp
    moreover from this have "cur + tmin \<le> fst p"
      using sample_time_bounds [OF c] by blast
    moreover have "cur' = fst p + 1" using n False by (simp add: p_def)
    ultimately show ?thesis using c False by auto
  qed
qed

lemma scanIteration_increases:
  assumes "scanIteration thr tmin tmax gid (f, cur, evs) = Inr (f', cur', evs')" and "0 \<le> tmin"
  shows "cur < cur'"
  using scanIteration_cursor [OF assms(1)] assms(2) by (auto split: if_splits)

text \<open>
  The significant samples keep the order of the candidate times, and the cursor that
  follows an iteration is past the \<^verbatim>\<open>end_time\<close> of every dictionary the iteration appended.
\<close>

lemma significant_times:
  "map fst (significantMomentumIntervals thr ser)
     = map fst (filter (\<lambda>(t, v). case v of None \<Rightarrow> False | Some x \<Rightarrow> Fin thr \<le> xabs x) ser)"
  by (induction ser) (auto simp: significantMomentumIntervals_def split: option.splits)

lemma significant_times_sorted:
  assumes "calculateExplosiveness f cur tmin tmax = Inr (f', ser)"
  shows "sorted (map fst (significantMomentumIntervals thr ser))"
proof -
  from calculateExplosiveness_times [OF assms] have "sorted (map fst ser)"
    by auto
  then show ?thesis
    unfolding significant_times by (rule sorted_filter)
qed

lemma sorted_le_last:
  fixes xs :: "int list"
  shows "sorted xs \<Longrightarrow> x \<in> set xs \<Longrightarrow> x \<le> last xs"
  by (induction xs) auto

lemma cursor_past_appended_records:
  assumes "scanIteration thr tmin tmax gid (f, cur, evs) = Inr (f', cur', evs')"
  shows "\<exists>new. evs' = evs @ new \<and> (\<forall>r\<in>set new. end_time r < cur')"
proof -
  from scanIteration_Inr [OF assms] obtain ser new where
    c: "calculateExplosiveness f cur tmin tmax = Inr (f', ser)" and new: "evs' = evs @ new"
    and r: "\<forall>r\<in>set new. (end_time r, intensity r) \<in> set (significantMomentumIntervals thr ser)"
    and n: "significantMomentumIntervals thr ser \<noteq> [] \<longrightarrow>
        cur' = fst (last (significantMomentumIntervals thr ser)) + 1"
    by blast
  have "end_time x < cur'" if "x \<in> set new" for x
  proof -
    let ?sig = "significantMomentumIntervals thr ser"
    from r that have m: "(end_time x, intensity x) \<in> set ?sig" by blast
    then have ne: "?sig \<noteq> []" by auto
    from m have "end_time x \<in> set (map fst ?sig)" by force
    moreover have "sorted (map fst ?sig)" using c by (rule significant_times_sorted)
    ultimately have "end_time x \<le> last (map fst ?sig)"
      by (intro sorted_le_last)
    also have "\<dots> = fst (last ?sig)" using ne by (simp add: last_map)
    finally show ?thesis using n ne by simp
  qed
  with new show ?thesis by blast
qed

text \<open>
  What holds of every dictionary the whole loop appends.
\<close>

lemma scan_records:
  assumes "scan n thr tmin tmax gid gd (f, cur, evs) = Some (Inr (f', evs'))"
  shows "events f' = events f \<and> (\<exists>new. evs' = evs @ new \<and>
     (\<forall>r\<in>set new. game_id r = gid \<and>
        build_up_start_time r + tmin \<le> end_time r \<and> end_time r \<le> build_up_start_time r + tmax \<and>
        Fin thr \<le> xabs (intensity r) \<and>
        home_or_away r = side_of (intensity r) \<and>
        (end_time r \<noteq> build_up_start_time r \<longrightarrow> (\<exists>q. intensity r = Fin q))))"
  using assms
proof (induction n arbitrary: f cur evs)
  case 0
  then show ?case by (auto split: if_splits)
next
  case (Suc n)
  show ?case
  proof (cases "cur \<le> gd")
    case False
    with Suc.prems show ?thesis by auto
  next
    case True
    with Suc.prems obtain f1 cur1 evs1 where
      it: "scanIteration thr tmin tmax gid (f, cur, evs) = Inr (f1, cur1, evs1)"
      and rest: "scan n thr tmin tmax gid gd (f1, cur1, evs1) = Some (Inr (f', evs'))"
      by (auto split: sum.splits)
    from scanIteration_records [OF it] obtain new1 where
      n1: "evs1 = evs @ new1" "\<forall>r\<in>set new1. game_id r = gid \<and> build_up_start_time r = cur \<and>
        cur + tmin \<le> end_time r \<and> end_time r \<le> cur + tmax \<and>
        Fin thr \<le> xabs (intensity r) \<and>
        home_or_away r = side_of (intensity r) \<and>
        (end_time r \<noteq> cur \<longrightarrow> (\<exists>q. intensity r = Fin q))"
      by blast
    from Suc.IH [OF rest] obtain new2 where
      n2: "events f' = events f1" "evs' = evs1 @ new2"
        "\<forall>r\<in>set new2. game_id r = gid \<and>
        build_up_start_time r + tmin \<le> end_time r \<and> end_time r \<le> build_up_start_time r + tmax \<and>
        Fin thr \<le> xabs (intensity r) \<and>
        home_or_away r = side_of (intensity r) \<and>
        (end_time r \<noteq> build_up_start_time r \<longrightarrow> (\<exists>q. intensity r = Fin q))"
      by blast
    have "evs' = evs @ (new1 @ new2)" by (simp add: n1 n2)
    moreover have "\<forall>r\<in>set (new1 @ new2). game_id r = gid \<and>
        build_up_start_time r + tmin \<le> end_time r \<and> end_time r \<le> build_up_start_time r + tmax \<and>
        Fin thr \<le> xabs (intensity r) \<and>
        home_or_away r = side_of (intensity r) \<and>
        (end_time r \<noteq> build_up_start_time r \<longrightarrow> (\<exists>q. intensity r = Fin q))"
      using n1(2) n2(3) by auto
    moreover have "events f' = events f"
      using n2(1) scanIteration_events [OF it] by simp
    ultimately show ?thesis by blast
  qed
qed

text \<open>
  With a look-ahead that is not negative the loop ends within \<open>game_duration + 1 - cur\<close>
  iterations.
\<close>

lemma scan_terminates:
  assumes "0 \<le> tmin" and "events f \<noteq> []" and "nat (gd + 1 - cur) \<le> n"
  shows "\<exists>f' evs'. scan n thr tmin tmax gid gd (f, cur, evs) = Some (Inr (f', evs'))"
  using assms(2,3)
proof (induction n arbitrary: f cur evs)
  case 0
  then show ?case by simp
next
  case (Suc n)
  show ?case
  proof (cases "cur \<le> gd")
    case False
    then show ?thesis by simp
  next
    case True
    from scanIteration_total [OF Suc.prems(1)] obtain f1 cur1 evs1 where
      it: "scanIteration thr tmin tmax gid (f, cur, evs) = Inr (f1, cur1, evs1)" by blast
    have "cur < cur1" using scanIteration_increases [OF it assms(1)] .
    then have "nat (gd + 1 - cur1) \<le> n" using Suc.prems(2) by linarith
    moreover have "events f1 \<noteq> []" using scanIteration_events [OF it] Suc.prems(1) by simp
    ultimately obtain f' evs' where
      "scan n thr tmin tmax gid gd (f1, cur1, evs1) = Some (Inr (f', evs'))"
      using Suc.IH by blast
    then show ?thesis using True it by simp
  qed
qed

text \<open>
  Where no cursor position has a significant sample, the loop appends nothing.
\<close>

lemma scan_idle:
  assumes "events f \<noteq> []"
    and "\<And>c g g' ser. cur \<le> c \<Longrightarrow> c \<le> gd \<Longrightarrow> events g = events f \<Longrightarrow>
           calculateExplosiveness g c tmin tmax = Inr (g', ser) \<Longrightarrow>
           significantMomentumIntervals thr ser = []"
    and "nat (gd + 1 - cur) \<le> n"
  shows "\<exists>f'. scan n thr tmin tmax gid gd (f, cur, evs) = Some (Inr (f', evs)) \<and> events f' = events f"
  using assms
proof (induction n arbitrary: f cur)
  case 0
  then show ?case by simp
next
  case (Suc n)
  show ?case
  proof (cases "cur \<le> gd")
    case False
    then show ?thesis by simp
  next
    case True
    from scanIteration_total [OF Suc.prems(1)] obtain f1 cur1 evs1 where
      it: "scanIteration thr tmin tmax gid (f, cur, evs) = Inr (f1, cur1, evs1)" by blast
    from scanIteration_Inr [OF it] obtain ser new where
      c: "calculateExplosiveness f cur tmin tmax = Inr (f1, ser)" and new: "evs1 = evs @ new"
      and n: "significantMomentumIntervals thr ser = [] \<longrightarrow> cur1 = cur + 1 \<and> new = []"
      by blast
    have "significantMomentumIntervals thr ser = []"
      using Suc.prems(2) [OF _ True _ c] by simp
    with n new have st: "cur1 = cur + 1" "evs1 = evs" by simp_all
    have ev1: "events f1 = events f" using scanIteration_events [OF it] .
    have "\<exists>f'. scan n thr tmin tmax gid gd (f1, cur + 1, evs) = Some (Inr (f', evs)) \<and> events f' = events f1"
    proof (rule Suc.IH)
      show "events f1 \<noteq> []" using ev1 Suc.prems(1) by simp
      show "nat (gd + 1 - (cur + 1)) \<le> n" using Suc.prems(3) True by linarith
      show "significantMomentumIntervals thr ser = []"
        if "cur + 1 \<le> c" "c \<le> gd" "events g = events f1" "calculateExplosiveness g c tmin tmax = Inr (g', ser)"
        for c g g' ser
        using Suc.prems(2) [of c g g' ser] that ev1 by simp
    qed
    then show ?thesis using True it st ev1 by auto
  qed
qed

section \<open>Properties of the aggregation\<close>

lemma aggregate_group_fields:
  assumes "aggregate_group k (r # rs) = [e]"
  shows "ep_build_up_start_time e = k"
    and "ep_end_time e = Max (end_time ` set (r # rs))"
    and "peak_intensity_max e = Max (intensity ` set (r # rs))"
    and "peak_intensity_min e = Min (intensity ` set (r # rs))"
    and "ep_home_or_away e = Max (home_or_away ` set (r # rs))"
    and "avg_intensity e = xmean (map intensity (r # rs))"
  using assms by (auto simp: Let_def fold_max_Max fold_min_Min)

lemma aggregate_mem:
  assumes "e \<in> set (aggregate recs)"
  obtains r rs where
    "filter (\<lambda>x. build_up_start_time x = ep_build_up_start_time e) recs = r # rs"
    and "aggregate_group (ep_build_up_start_time e) (r # rs) = [e]"
proof -
  from assms obtain k where
    k: "e \<in> set (aggregate_group k (filter (\<lambda>x. build_up_start_time x = k) recs))"
    by (auto simp: aggregate_def)
  then obtain r rs where g: "filter (\<lambda>x. build_up_start_time x = k) recs = r # rs"
    by (cases "filter (\<lambda>x. build_up_start_time x = k) recs") auto
  with k have e: "aggregate_group k (r # rs) = [e]"
    by (simp add: Let_def)
  then have "ep_build_up_start_time e = k"
    by (rule aggregate_group_fields)
  with g e that show ?thesis by blast
qed

lemma group_mem:
  assumes "filter (\<lambda>x. build_up_start_time x = k) recs = r # rs"
  shows "x \<in> set (r # rs) \<longleftrightarrow> x \<in> set recs \<and> build_up_start_time x = k"
  unfolding assms [symmetric] by simp

lemma side_order: "''Away Momentum'' \<le> ''Home Momentum''"
  by simp






section \<open>Properties of the interval categorizer\<close>

lemma window_columns_time_window:
  assumes "1 \<le> w" and "0 \<le> eventClock e" and "eventClock e \<le> m"
  shows "w_time_window (window_columns w m e) = max 1 (\<lfloor>(eventClock e - 1) / of_int w\<rfloor> + 1)"
proof -
  let ?c = "eventClock e"
  let ?tw0 = "\<lfloor>(?c - 1) / of_int w\<rfloor> + 1"
  have w: "(0::rat) < of_int w" "(1::rat) \<le> of_int w" using assms(1) by simp_all
  have "- 1 \<le> (?c - 1) / of_int w"
  proof -
    have "- of_int w \<le> (- 1 :: rat)" using w by simp
    also have "\<dots> \<le> ?c - 1" using assms(2) by simp
    finally show ?thesis using w(1) by (simp add: pos_le_divide_eq)
  qed
  then have "- 1 \<le> \<lfloor>(?c - 1) / of_int w\<rfloor>" by (simp add: le_floor_iff)
  then have nonneg: "0 \<le> ?tw0" by simp
  have adj: "\<lfloor>m / of_int w\<rfloor> = ?tw0" if d: "divides_clock w m" and c: "?c = m"
  proof -
    define q where "q = \<lfloor>m / of_int w\<rfloor>"
    from d have m: "m = of_int q * of_int w" by (simp add: divides_clock_def q_def)
    have "(m - 1) / of_int w = of_int q - 1 / of_int w"
      using w(1) by (simp add: m diff_divide_distrib)
    moreover have "0 < 1 / (of_int w :: rat)" "1 / (of_int w :: rat) \<le> 1"
      using w by simp_all
    ultimately have "of_int (q - 1) \<le> (m - 1) / of_int w" "(m - 1) / of_int w < of_int (q - 1) + 1"
      by simp_all
    then have "\<lfloor>(m - 1) / of_int w\<rfloor> = q - 1" by (rule floor_unique)
    then show ?thesis by (simp add: c q_def)
  qed
  define t0 where "t0 = ?tw0"
  define tw where "tw = (if divides_clock w m \<and> ?c = m then \<lfloor>m / of_int w\<rfloor> else t0)"
  have "tw = t0" using adj by (simp add: tw_def t0_def)
  moreover have "w_time_window (window_columns w m e) = (if tw = 0 then 1 else tw)"
    by (simp add: window_columns_def Let_def tw_def t0_def)
  moreover have "0 \<le> t0" using nonneg by (simp add: t0_def)
  ultimately have "w_time_window (window_columns w m e) = max 1 t0"
    by (simp add: max_def)
  then show ?thesis by (simp add: t0_def)
qed

lemma time_window_upper:
  assumes "1 \<le> w" and "c \<le> (m::rat)"
  shows "\<lfloor>(c - 1) / of_int w\<rfloor> + 1 \<le> \<lceil>m / of_int w\<rceil>"
proof -
  have w: "(0::rat) < of_int w" using assms(1) by simp
  have "(c - 1) / of_int w < m / of_int w"
    using assms(2) w by (simp add: divide_strict_right_mono)
  also have "\<dots> \<le> of_int \<lceil>m / of_int w\<rceil>" by (rule le_of_int_ceiling)
  finally have "\<lfloor>(c - 1) / of_int w\<rfloor> < \<lceil>m / of_int w\<rceil>"
    by (simp add: floor_less_iff)
  then show ?thesis by simp
qed

lemma categorical_Some:
  assumes "calculateIntervalExplosivenessCategorical f w = Some rows"
  obtains m where "series_max (map eventClock (events f)) = Some m"
    and "map (\<lambda>r. (il_gameid r, il_time_window r)) rows
          = sort (remdups (map (\<lambda>e. (gameid e, w_time_window (window_columns w m e))) (events f)))"
proof -
  from assms obtain m where m: "series_max (map eventClock (events f)) = Some m"
    by (auto simp: calculateIntervalExplosivenessCategorical_def split: option.splits)
  have g: "w_gameid (window_columns w m e) = gameid e" for e
    by (simp add: window_columns_def Let_def)
  from assms m have "map (\<lambda>r. (il_gameid r, il_time_window r)) rows
          = sort (remdups (map (\<lambda>e. (gameid e, w_time_window (window_columns w m e))) (events f)))"
    by (auto simp: calculateIntervalExplosivenessCategorical_def Let_def comp_def g
          case_prod_beta split: if_splits)
  with m that show ?thesis by blast
qed

section \<open>The run on \<open>game_reversal\<close>\<close>

text \<open>
  \<^verbatim>\<open>findGameMomentumEvents\<close> on \<open>game_reversal\<close> with threshold 1/2 and look-ahead 2 to 8,
  evaluated through the 2872 iterations of its loop: the first appends the three records,
  the others find no significant sample.
\<close>

lemma game_reversal_columns:
  "series_max (map eventClock (events game_reversal)) = Some 30"
  "series_max (map gameid (events game_reversal)) = Some ''0022300001''"
  by code_simp+

lemma game_reversal_scan:
  "scan 2880 (1 / 2) 2 8 ''0022300001'' 2880 (game_reversal, 1, [])
     = Some (Inr (game_reversal\<lparr>score_diff := Some [0, 3, 0, - 6, - 6]\<rparr>, reversal_records))"
  by code_simp

lemma reversal_records_aggregate: "aggregate reversal_records = [reversal_episode]"
  by code_simp

lemma game_reversal_run:
  "findGameMomentumEvents 2880 game_reversal (1 / 2) 2 8
     = Some (Inr (game_reversal\<lparr>score_diff := Some [0, 3, 0, - 6, - 6]\<rparr>, [reversal_episode]))"
proof -
  have "py_int (max 30 2880) = 2880" by (simp add: py_int_def)
  moreover have "reversal_records \<noteq> []" by (simp add: reversal_records_def)
  ultimately show ?thesis
    by (simp add: findGameMomentumEvents_def game_reversal_columns game_reversal_scan
        reversal_records_aggregate)
qed

section \<open>The claims\<close>

subsection \<open>C1: the side of an aggregated episode\<close>

text \<open>
  Claim C1, as the code has it. \<^verbatim>\<open>home_or_away\<close> is aggregated with \<^verbatim>\<open>'max'\<close>, the
  greatest string of the group, and \<open>''Away Momentum'' \<le> ''Home Momentum''\<close>. For records
  whose side follows the sign of their intensity, as the scan writes them, the episode of a
  group is Home as soon as one record of the group has an intensity that is not negative,
  and Away only when all are negative. The record with the greatest \<^verbatim>\<open>end_time\<close> has no
  special part in it.
\<close>

theorem episode_side:
  assumes "\<forall>r\<in>set recs. home_or_away r = side_of (intensity r)"
    and "e \<in> set (aggregate recs)"
  shows "ep_home_or_away e =
           (if \<exists>r\<in>set recs. build_up_start_time r = ep_build_up_start_time e \<and> \<not> intensity r < Fin 0
            then ''Home Momentum'' else ''Away Momentum'')"
proof -
  from assms(2) obtain r rs where
    g: "filter (\<lambda>x. build_up_start_time x = ep_build_up_start_time e) recs = r # rs"
    and e: "aggregate_group (ep_build_up_start_time e) (r # rs) = [e]"
    by (rule aggregate_mem)
  note mem = group_mem [OF g]
  have side: "ep_home_or_away e = Max (home_or_away ` set (r # rs))"
    using e by (rule aggregate_group_fields)
  have label: "home_or_away x = (if intensity x < Fin 0 then ''Away Momentum'' else ''Home Momentum'')"
    if "x \<in> set (r # rs)" for x
    using that assms(1) mem [of x] by (simp add: side_of_def)
  show ?thesis
  proof (cases "\<exists>x\<in>set (r # rs). \<not> intensity x < Fin 0")
    case True
    then obtain x where x: "x \<in> set (r # rs)" "\<not> intensity x < Fin 0" by blast
    have "Max (home_or_away ` set (r # rs)) = ''Home Momentum''"
    proof (rule Max_eqI)
      show "finite (home_or_away ` set (r # rs))" by simp
      show "''Home Momentum'' \<in> home_or_away ` set (r # rs)"
        using x label [OF x(1)] by force
      show "y \<le> ''Home Momentum''" if "y \<in> home_or_away ` set (r # rs)" for y
        using that label side_order by force
    qed
    moreover have "\<exists>r\<in>set recs. build_up_start_time r = ep_build_up_start_time e \<and> \<not> intensity r < Fin 0"
      using x mem by blast
    ultimately show ?thesis using side by simp
  next
    case False
    have "Max (home_or_away ` set (r # rs)) = ''Away Momentum''"
    proof (rule Max_eqI)
      show "finite (home_or_away ` set (r # rs))" by simp
      show "''Away Momentum'' \<in> home_or_away ` set (r # rs)"
        using False label [of r] by force
      show "y \<le> ''Away Momentum''" if "y \<in> home_or_away ` set (r # rs)" for y
        using that label False by force
    qed
    moreover have "\<not> (\<exists>r\<in>set recs. build_up_start_time r = ep_build_up_start_time e \<and> \<not> intensity r < Fin 0)"
      using False mem by blast
    ultimately show ?thesis using side by simp
  qed
qed

text \<open>
  The theorem at the three records of \<open>game_reversal\<close>.
\<close>

theorem episode_side_witness:
  "list_all (\<lambda>r. home_or_away r = side_of (intensity r)) reversal_records \<and>
   (\<exists>e. aggregate reversal_records = [e] \<and>
        ep_home_or_away e =
          (if \<exists>r\<in>set reversal_records.
                build_up_start_time r = ep_build_up_start_time e \<and> \<not> intensity r < Fin 0
           then ''Home Momentum'' else ''Away Momentum'') \<and>
        ep_home_or_away e = ''Home Momentum'')"
proof -
  have h: "list_all (\<lambda>r. home_or_away r = side_of (intensity r)) reversal_records"
    by code_simp
  then have h': "\<forall>r\<in>set reversal_records. home_or_away r = side_of (intensity r)"
    by (simp add: list_all_iff)
  have "map ep_home_or_away (aggregate reversal_records) = [''Home Momentum'']"
    by code_simp
  then obtain e where e: "aggregate reversal_records = [e]" "ep_home_or_away e = ''Home Momentum''"
    by auto
  then have "e \<in> set (aggregate reversal_records)" by simp
  from episode_side [OF h' this] h e show ?thesis by blast
qed

text \<open>
  C1 as stated fails. On \<open>game_reversal\<close> with threshold 1/2 and look-ahead 2 to 8 the scan
  appends three records, all with \<^verbatim>\<open>build_up_start_time\<close> 1. The one with the greatest
  \<^verbatim>\<open>end_time\<close> (7) has a negative intensity and the side Away; the episode that
  \<^verbatim>\<open>findGameMomentumEvents\<close> returns for the group has the side Home.
\<close>

theorem episode_side_counterexample:
  "scan 2880 (1 / 2) 2 8 ''0022300001'' 2880 (game_reversal, 1, [])
     = Some (Inr (game_reversal\<lparr>score_diff := Some [0, 3, 0, - 6, - 6]\<rparr>, reversal_records)) \<and>
   findGameMomentumEvents 2880 game_reversal (1 / 2) 2 8
     = Some (Inr (game_reversal\<lparr>score_diff := Some [0, 3, 0, - 6, - 6]\<rparr>, [reversal_episode])) \<and>
   map (\<lambda>r. (build_up_start_time r, end_time r, intensity r < Fin 0, home_or_away r)) reversal_records
     = [(1, 3, False, ''Home Momentum''), (1, 4, False, ''Home Momentum''),
        (1, 7, True, ''Away Momentum'')] \<and>
   (ep_build_up_start_time reversal_episode, ep_end_time reversal_episode,
    ep_home_or_away reversal_episode) = (1, 7, ''Home Momentum'')"
proof -
  have "map (\<lambda>r. (build_up_start_time r, end_time r, intensity r < Fin 0, home_or_away r)) reversal_records
     = [(1, 3, False, ''Home Momentum''), (1, 4, False, ''Home Momentum''),
        (1, 7, True, ''Away Momentum'')]"
    by code_simp
  moreover have "(ep_build_up_start_time reversal_episode, ep_end_time reversal_episode,
    ep_home_or_away reversal_episode) = (1, 7, ''Home Momentum'')"
    by (simp add: reversal_episode_def)
  ultimately show ?thesis
    using game_reversal_scan game_reversal_run by blast
qed

subsection \<open>C2: the rows of the interval categorizer\<close>

text \<open>
  Claim C2, as the code has it. For a table of one game with clocks that are not
  negative and an interval width of at least 1, the rows are those of the interval numbers
  \<open>max 1 (\<lfloor>(eventClock - 1) / time_window\<rfloor> + 1)\<close> in which an event falls: each such number
  once, in strictly increasing order, all between 1 and
  \<open>max 1 \<lceil>max_event_time / time_window\<rceil>\<close>, so at most that many rows. An interval without
  an event has no row.
\<close>

theorem interval_rows:
  assumes "calculateIntervalExplosivenessCategorical pbpGameData time_window = Some rows"
    and "1 \<le> time_window"
    and "\<forall>e\<in>set (events pbpGameData). 0 \<le> eventClock e \<and> gameid e = gid"
  shows "\<exists>m. series_max (map eventClock (events pbpGameData)) = Some m \<and>
     sorted_wrt (<) (map il_time_window rows) \<and>
     set (map il_time_window rows)
       = (\<lambda>e. max 1 (\<lfloor>(eventClock e - 1) / of_int time_window\<rfloor> + 1)) ` set (events pbpGameData) \<and>
     (\<forall>r\<in>set rows. il_gameid r = gid \<and> 1 \<le> il_time_window r \<and>
                     il_time_window r \<le> max 1 \<lceil>m / of_int time_window\<rceil>) \<and>
     length rows \<le> nat (max 1 \<lceil>m / of_int time_window\<rceil>)"
proof -
  let ?T = "\<lambda>e. max 1 (\<lfloor>(eventClock e - 1) / of_int time_window\<rfloor> + 1)"
  from assms(1) obtain m where m: "series_max (map eventClock (events pbpGameData)) = Some m"
    and keys: "map (\<lambda>r. (il_gameid r, il_time_window r)) rows
          = sort (remdups (map (\<lambda>e. (gameid e, w_time_window (window_columns time_window m e)))
                             (events pbpGameData)))"
    by (rule categorical_Some)
  let ?N = "max 1 \<lceil>m / of_int time_window\<rceil>"
  have le_m: "eventClock e \<le> m" if "e \<in> set (events pbpGameData)" for e
  proof -
    from series_max_Some_Max [OF m] have "m = Max (set (map eventClock (events pbpGameData)))"
      by simp
    then show ?thesis using that by simp
  qed
  have tw: "(gameid e, w_time_window (window_columns time_window m e)) = (gid, ?T e)"
    if "e \<in> set (events pbpGameData)" for e
    using that assms(3) window_columns_time_window [OF assms(2) _ le_m [OF that]] by simp
  then have "map (\<lambda>e. (gameid e, w_time_window (window_columns time_window m e))) (events pbpGameData)
               = map (\<lambda>e. (gid, ?T e)) (events pbpGameData)"
    by simp
  with keys have keys': "map (\<lambda>r. (il_gameid r, il_time_window r)) rows
          = sort (remdups (map (\<lambda>e. (gid, ?T e)) (events pbpGameData)))"
    by simp
  have pairs: "(\<lambda>r. (il_gameid r, il_time_window r)) ` set rows = (\<lambda>e. (gid, ?T e)) ` set (events pbpGameData)"
    using arg_cong [OF keys', of set] by simp
  have gid: "il_gameid r = gid" if "r \<in> set rows" for r
  proof -
    from that have "(il_gameid r, il_time_window r) \<in> (\<lambda>e. (gid, ?T e)) ` set (events pbpGameData)"
      using pairs by blast
    then show ?thesis by auto
  qed
  have set_eq: "set (map il_time_window rows) = ?T ` set (events pbpGameData)"
  proof -
    have "set (map il_time_window rows) = snd ` (\<lambda>r. (il_gameid r, il_time_window r)) ` set rows"
      by (simp add: image_image)
    also have "\<dots> = snd ` (\<lambda>e. (gid, ?T e)) ` set (events pbpGameData)"
      by (simp only: pairs)
    also have "\<dots> = ?T ` set (events pbpGameData)"
      by (simp add: image_image)
    finally show ?thesis .
  qed
  have "sorted_wrt (<) (map (\<lambda>r. (il_gameid r, il_time_window r)) rows)"
    unfolding keys' by (simp add: strict_sorted_iff)
  then have "sorted_wrt (\<lambda>x y. (il_gameid x, il_time_window x) < (il_gameid y, il_time_window y)) rows"
    by (simp add: sorted_wrt_map)
  then have "sorted_wrt (\<lambda>x y. il_time_window x < il_time_window y) rows"
    by (rule sorted_wrt_mono_rel [rotated]) (simp add: gid less_prod_def)
  then have strict: "sorted_wrt (<) (map il_time_window rows)"
    by (simp add: sorted_wrt_map)
  have range: "1 \<le> il_time_window r \<and> il_time_window r \<le> ?N" if "r \<in> set rows" for r
  proof -
    from that have "il_time_window r \<in> set (map il_time_window rows)" by simp
    then obtain e where e: "e \<in> set (events pbpGameData)" "il_time_window r = ?T e"
      unfolding set_eq by blast
    have "\<lfloor>(eventClock e - 1) / of_int time_window\<rfloor> + 1 \<le> \<lceil>m / of_int time_window\<rceil>"
      using assms(2) le_m [OF e(1)] by (rule time_window_upper)
    then show ?thesis using e(2) by simp
  qed
  have "distinct (map il_time_window rows)"
    using strict by (simp add: strict_sorted_iff)
  then have "length rows = card (set (map il_time_window rows))"
    by (metis distinct_card length_map)
  also have "\<dots> \<le> card {1 .. ?N}"
    by (rule card_mono) (use range in auto)
  also have "\<dots> = nat ?N" by simp
  finally have len: "length rows \<le> nat ?N" .
  from m strict set_eq gid range len show ?thesis by blast
qed

text \<open>
  The theorem on \<open>game_sparse\<close> with intervals of 120 seconds.
\<close>

theorem interval_rows_witness:
  "calculateIntervalExplosivenessCategorical game_sparse 120
     = Some [\<lparr>il_gameid = ''0022300001'', il_time_window = 1,
              momentum_intensity = Some (Fin (1 / 60)), momentum_category = Some 6\<rparr>,
             \<lparr>il_gameid = ''0022300001'', il_time_window = 24,
              momentum_intensity = Some (Fin 0), momentum_category = Some 5\<rparr>] \<and>
   (1::int) \<le> 120 \<and>
   list_all (\<lambda>e. 0 \<le> eventClock e \<and> gameid e = ''0022300001'') (events game_sparse) \<and>
   (\<lambda>e. max 1 (\<lfloor>(eventClock e - 1) / of_int 120\<rfloor> + 1)) ` set (events game_sparse) = {1, 24}"
proof -
  have c: "calculateIntervalExplosivenessCategorical game_sparse 120
     = Some [\<lparr>il_gameid = ''0022300001'', il_time_window = 1,
              momentum_intensity = Some (Fin (1 / 60)), momentum_category = Some 6\<rparr>,
             \<lparr>il_gameid = ''0022300001'', il_time_window = 24,
              momentum_intensity = Some (Fin 0), momentum_category = Some 5\<rparr>]"
    by code_simp
  have w: "(1::int) \<le> 120" by simp
  have h: "list_all (\<lambda>e. 0 \<le> eventClock e \<and> gameid e = ''0022300001'') (events game_sparse)"
    by code_simp
  then have "\<forall>e\<in>set (events game_sparse). 0 \<le> eventClock e \<and> gameid e = ''0022300001''"
    by (simp add: list_all_iff)
  from interval_rows [OF c w this] c w h show ?thesis by auto
qed

text \<open>
  C2 as stated fails. \<open>game_sparse\<close> lasts 2880 seconds, that is 24 intervals of 120
  seconds, and has events in the first and the last of them only: the categorizer
  returns two rows, numbered 1 and 24, and no row with intensity 0 for the 22 intervals in
  between.
\<close>

theorem interval_rows_counterexample:
  "series_max (map eventClock (events game_sparse)) = Some 2880 \<and>
   \<lceil>(2880::rat) / of_int 120\<rceil> = 24 \<and>
   map_option (map (\<lambda>r. (il_time_window r, momentum_intensity r, momentum_category r)))
     (calculateIntervalExplosivenessCategorical game_sparse 120)
     = Some [(1, Some (Fin (1 / 60)), Some 6), (24, Some (Fin 0), Some 5)]"
  by code_simp

subsection \<open>C3: the cursor after a reversal\<close>

text \<open>
  Claim C3 at \<open>game_reversal\<close>, threshold 1/2, look-ahead 2 to 8, cursor 1. The significant
  samples are at 3, 4, 7, 8 and 9. The walk meets the reversal at 7: it appends the record of
  7, assigns \<^verbatim>\<open>current_time = 7\<close> and breaks, so that the samples at 8 and 9 are not walked.
  The assignment after the \<^verbatim>\<open>for\<close> statement then sets the cursor to \<open>9 + 1\<close>: the next
  iteration starts from 10, not from 7. (By \<open>cursor_past_appended_records\<close> the next cursor
  is past every record of the iteration on any input.)
\<close>

theorem reversal_cursor_overwritten:
  "(case calculateExplosiveness game_reversal 1 2 8 of
      Inl e \<Rightarrow> None
    | Inr (f', ser) \<Rightarrow> Some (significantMomentumIntervals (1 / 2) ser))
     = Some [(3, Fin (3 / 2)), (4, Fin 1), (7, Fin (- 1)), (8, Fin (- (6 / 7))), (9, Fin (- (3 / 4)))] \<and>
   current_time
     (walk ''0022300001'' 2
        [(3, Fin (3 / 2)), (4, Fin 1), (7, Fin (- 1)), (8, Fin (- (6 / 7))), (9, Fin (- (3 / 4)))]
        \<lparr>current_time = 1, momentum_direction = positive_direction, firstSignificant_time = 3,
         momentumStartTime = None, momentumEvents = []\<rparr>) = 7 \<and>
   (case scanIteration (1 / 2) 2 8 ''0022300001'' (game_reversal, 1, []) of
      Inl e \<Rightarrow> None
    | Inr (f', cur', evs) \<Rightarrow> Some (cur', map end_time evs)) = Some (10, [3, 4, 7])"
  by code_simp

subsection \<open>C4: the evaluation window\<close>

text \<open>
  Claim C4, as the code has it. The candidate times of \<^verbatim>\<open>calculateExplosiveness\<close>, which
  the scan calls with its cursor, are the seconds from \<open>cur + time_min\<close> to
  \<open>min (cur + time_max) (int max_event_time)\<close>: the bound is the greatest clock of the table.
  The floor of 2880 is in \<^verbatim>\<open>game_duration\<close>, which bounds the cursor only.
\<close>

theorem evaluation_window:
  assumes "calculateExplosiveness pbpGameData cur time_min time_max = Inr (f', ser)"
  shows "\<exists>m. series_max (map eventClock (events pbpGameData)) = Some m \<and>
             map fst ser = [cur + time_min .. min (cur + time_max) (py_int m)]"
  using assms by (rule calculateExplosiveness_times)

text \<open>
  The theorem on \<open>game_short\<close> at cursor 90 with look-ahead 1 to 20.
\<close>

theorem evaluation_window_witness:
  "calculateExplosiveness game_short 90 1 20
     = Inr (game_short\<lparr>score_diff := Some [0, 2]\<rparr>,
            map (\<lambda>t. (t, Some (Fin 0))) [91 .. 99] @ [(100, Some (Fin (1 / 5)))]) \<and>
   (\<exists>m. series_max (map eventClock (events game_short)) = Some m \<and>
        map fst (map (\<lambda>t. (t, Some (Fin 0))) [91 .. 99] @ [(100, Some (Fin (1 / 5)))])
          = [90 + 1 .. min (90 + 20) (py_int m)])"
proof -
  have c: "calculateExplosiveness game_short 90 1 20
     = Inr (game_short\<lparr>score_diff := Some [0, 2]\<rparr>,
            map (\<lambda>t. (t, Some (Fin 0))) [91 .. 99] @ [(100, Some (Fin (1 / 5)))])"
    by code_simp
  from evaluation_window [OF c] c show ?thesis by blast
qed

text \<open>
  C4 as stated fails. The last event of \<open>game_short\<close> is at second 100. At cursor 90 with
  look-ahead 1 to 20 the candidate times are 91 to 100, and not 91 to
  \<open>min (90 + 20) (max 100 2880) = 110\<close>.
\<close>

theorem evaluation_window_counterexample:
  "series_max (map eventClock (events game_short)) = Some 100 \<and>
   (case calculateExplosiveness game_short 90 1 20 of
      Inl e \<Rightarrow> None | Inr (f', ser) \<Rightarrow> Some (map fst ser)) = Some [91 .. 100] \<and>
   [90 + 1 .. min (90 + 20) (py_int (max 100 2880))] = [91 .. 110] \<and>
   [91 .. 100] \<noteq> [91 .. (110::int)]"
  by code_simp

subsection \<open>C5: candidate times before the first event\<close>

text \<open>
  Claim C5, as the code has it. At a candidate time before every clock of the table the
  forward fill has no value: the looked-up differential is NaN, no default takes its place,
  the intensity is NaN, and the sample is significant for no threshold.
\<close>

theorem lookup_before_first_event:
  assumes "calculateExplosiveness pbpGameData start_time time_min time_max = Inr (f', ser)"
    and "(t, v) \<in> set ser"
    and "\<forall>e\<in>set (events pbpGameData). of_int t < eventClock e"
  shows "v = None \<and> (\<forall>thr x. (t, x) \<notin> set (significantMomentumIntervals thr ser))"
proof -
  have "v = None" using assms by (rule before_first_event_None)
  moreover have "(t, x) \<notin> set (significantMomentumIntervals thr ser)" for thr x
  proof
    assume "(t, x) \<in> set (significantMomentumIntervals thr ser)"
    then have "(t, Some x) \<in> set ser" by (simp add: significant_mem)
    with assms(1) have "Some x = None" using assms(3) by (rule before_first_event_None)
    then show False by simp
  qed
  ultimately show ?thesis by blast
qed

text \<open>
  The theorem on \<open>game_late_first_event\<close>, whose first event is at second 50, at the
  candidate time 2.
\<close>

theorem lookup_before_first_event_witness:
  "calculateExplosiveness game_late_first_event 1 1 3
     = Inr (game_late_first_event\<lparr>score_diff := Some [2, 2]\<rparr>, [(2, None), (3, None), (4, None)]) \<and>
   list_all (\<lambda>e. of_int 2 < eventClock e) (events game_late_first_event) \<and>
   (\<forall>thr x. (2, x) \<notin> set (significantMomentumIntervals thr [(2, None), (3, None), (4, None)]))"
proof -
  have c: "calculateExplosiveness game_late_first_event 1 1 3
     = Inr (game_late_first_event\<lparr>score_diff := Some [2, 2]\<rparr>, [(2, None), (3, None), (4, None)])"
    by code_simp
  have m: "(2, None) \<in> set [(2::int, None :: xreal option), (3, None), (4, None)]"
    by simp
  have e: "list_all (\<lambda>e. of_int 2 < eventClock e) (events game_late_first_event)"
    by code_simp
  then have "\<forall>e\<in>set (events game_late_first_event). of_int 2 < eventClock e"
    by (simp add: list_all_iff)
  from lookup_before_first_event [OF c m this] c e show ?thesis by blast
qed

text \<open>
  C5 as stated fails. On \<open>game_late_first_event\<close> the intensities from start 1 at the times
  2, 3 and 4 are NaN, where the claim has \<open>(0 - 0) / (2 - 1) = 0\<close>. The difference shows
  with the threshold 0: an intensity 0 would be significant, NaN is not.
\<close>

theorem lookup_before_first_event_counterexample:
  "(case calculateExplosiveness game_late_first_event 1 1 3 of
      Inl e \<Rightarrow> None | Inr (f', ser) \<Rightarrow> Some ser) = Some [(2, None), (3, None), (4, None)] \<and>
   intensity_at (Some 0) 0 2 1 = Some (Fin 0) \<and>
   significantMomentumIntervals 0 [(2, Some (Fin 0))] = [(2, Fin 0)] \<and>
   significantMomentumIntervals 0 [(2, None)] = []"
  by code_simp

subsection \<open>C6: the effect of the evaluator on its table\<close>

text \<open>
  Claim C6, as the code has it. \<^verbatim>\<open>calculateExplosiveness\<close> leaves the rows of its table as
  they are and assigns the column \<^verbatim>\<open>score_diff\<close>, home score minus away score, on the
  table it was given. A second call on the table leaves it as the first one did, with the
  same result; and the result is the same for any table with the same rows.
\<close>

theorem calculateExplosiveness_frame:
  assumes "calculateExplosiveness pbpGameData start_time time_min time_max = Inr (f', ser)"
  shows "events f' = events pbpGameData \<and>
         score_diff f' = Some (map (\<lambda>e. scoreHome e - scoreAway e) (events pbpGameData)) \<and>
         calculateExplosiveness f' start_time time_min time_max = Inr (f', ser) \<and>
         (\<forall>g. events g = events pbpGameData \<longrightarrow>
            (\<exists>g'. calculateExplosiveness g start_time time_min time_max = Inr (g', ser)))"
  using assms by (rule calculateExplosiveness_effect)

text \<open>
  The theorem on \<open>game_short\<close>.
\<close>

theorem calculateExplosiveness_frame_witness:
  "calculateExplosiveness game_short 90 1 20
     = Inr (game_short\<lparr>score_diff := Some [0, 2]\<rparr>,
            map (\<lambda>t. (t, Some (Fin 0))) [91 .. 99] @ [(100, Some (Fin (1 / 5)))]) \<and>
   events (game_short\<lparr>score_diff := Some [0, 2]\<rparr>) = events game_short \<and>
   calculateExplosiveness (game_short\<lparr>score_diff := Some [0, 2]\<rparr>) 90 1 20
     = Inr (game_short\<lparr>score_diff := Some [0, 2]\<rparr>,
            map (\<lambda>t. (t, Some (Fin 0))) [91 .. 99] @ [(100, Some (Fin (1 / 5)))])"
proof -
  have c: "calculateExplosiveness game_short 90 1 20
     = Inr (game_short\<lparr>score_diff := Some [0, 2]\<rparr>,
            map (\<lambda>t. (t, Some (Fin 0))) [91 .. 99] @ [(100, Some (Fin (1 / 5)))])"
    by code_simp
  from calculateExplosiveness_frame [OF c] c show ?thesis by blast
qed

text \<open>
  C6 as stated fails. \<open>game_reversal\<close> has no column \<^verbatim>\<open>score_diff\<close> before the call and has
  it after.
\<close>

theorem calculateExplosiveness_frame_counterexample:
  "score_diff game_reversal = None \<and>
   (case calculateExplosiveness game_reversal 1 2 8 of
      Inl e \<Rightarrow> None | Inr (f', ser) \<Rightarrow> Some (score_diff f')) = Some (Some [0, 3, 0, - 6, - 6])"
  by code_simp

subsection \<open>C7: minimum, mean and maximum of an episode\<close>



subsection \<open>C8: a game without a significant sample\<close>

text \<open>
  Claim C8. On a table with at least one row, when at no cursor position from 1 to
  \<^verbatim>\<open>game_duration\<close> a sample has \<open>|intensity| \<ge> threshold\<close>, the scan ends within
  \<^verbatim>\<open>game_duration\<close> iterations with no record, and \<^verbatim>\<open>findGameMomentumEvents\<close> returns the
  empty table, not an error.
\<close>

theorem no_significant_sample_no_episode:
  assumes "series_max (map eventClock (events pbpGameData)) = Some m"
    and "\<forall>c\<in>{1 .. py_int (max m 2880)}. \<forall>f' ser t x.
           calculateExplosiveness pbpGameData c time_min time_max = Inr (f', ser) \<longrightarrow>
           (t, Some x) \<in> set ser \<longrightarrow> \<not> Fin thr \<le> xabs x"
    and "nat (py_int (max m 2880)) \<le> fuel"
  shows "\<exists>f' gid. series_max (map gameid (events pbpGameData)) = Some gid \<and>
           scan fuel thr time_min time_max gid (py_int (max m 2880)) (pbpGameData, 1, [])
             = Some (Inr (f', [])) \<and>
           findGameMomentumEvents fuel pbpGameData thr time_min time_max = Some (Inr (f', []))"
proof -
  let ?gd = "py_int (max m 2880)"
  from series_max_gameid [OF assms(1)] obtain gid where
    gid: "series_max (map gameid (events pbpGameData)) = Some gid" by blast
  have ne: "events pbpGameData \<noteq> []"
    using assms(1) by (auto simp: series_max_eq_None)
  have quiet: "significantMomentumIntervals thr ser = []"
    if "1 \<le> c" "c \<le> ?gd" "events g = events pbpGameData"
      "calculateExplosiveness g c time_min time_max = Inr (g', ser)" for c g g' ser
  proof -
    from calculateExplosiveness_effect [OF that(4)] that(3) obtain f'' where
      "calculateExplosiveness pbpGameData c time_min time_max = Inr (f'', ser)"
      by metis
    with assms(2) that(1,2) have "\<forall>t x. (t, Some x) \<in> set ser \<longrightarrow> \<not> Fin thr \<le> xabs x"
      by auto
    then show ?thesis by (simp add: significant_Nil)
  qed
  have "\<exists>f'. scan fuel thr time_min time_max gid ?gd (pbpGameData, 1, []) = Some (Inr (f', []))
             \<and> events f' = events pbpGameData"
  proof (rule scan_idle)
    show "events pbpGameData \<noteq> []" by (rule ne)
    show "nat (?gd + 1 - 1) \<le> fuel" using assms(3) by simp
    show "significantMomentumIntervals thr ser = []"
      if "1 \<le> c" "c \<le> ?gd" "events g = events pbpGameData"
        "calculateExplosiveness g c time_min time_max = Inr (g', ser)" for c g g' ser
      using that by (rule quiet)
  qed
  then obtain f' where
    s: "scan fuel thr time_min time_max gid ?gd (pbpGameData, 1, []) = Some (Inr (f', []))"
    by blast
  then have "findGameMomentumEvents fuel pbpGameData thr time_min time_max = Some (Inr (f', []))"
    using assms(1) gid by (simp add: findGameMomentumEvents_def)
  with s gid show ?thesis by blast
qed

text \<open>
  The theorem on \<open>game_flat\<close>, where the differential is 0 throughout, with threshold
  1/20 and look-ahead 20 to 60.
\<close>

theorem no_significant_sample_no_episode_witness:
  "series_max (map eventClock (events game_flat)) = Some 2880 \<and>
   list_all (\<lambda>e. scoreHome e = scoreAway e) (events game_flat) \<and>
   (\<exists>f' gid. series_max (map gameid (events game_flat)) = Some gid \<and>
      scan 2880 (1 / 20) 20 60 gid (py_int (max 2880 2880)) (game_flat, 1, []) = Some (Inr (f', [])) \<and>
      findGameMomentumEvents 2880 game_flat (1 / 20) 20 60 = Some (Inr (f', [])))"
proof -
  have m: "series_max (map eventClock (events game_flat)) = Some 2880"
    by code_simp
  have flat: "list_all (\<lambda>e. scoreHome e = scoreAway e) (events game_flat)"
    by code_simp
  then have flat': "\<forall>e\<in>set (events game_flat). scoreHome e = scoreAway e"
    by (simp add: list_all_iff)
  have quiet: "\<forall>c\<in>{1 .. py_int (max 2880 2880)}. \<forall>f' ser t x.
           calculateExplosiveness game_flat c 20 60 = Inr (f', ser) \<longrightarrow>
           (t, Some x) \<in> set ser \<longrightarrow> \<not> Fin (1 / 20) \<le> xabs x"
    using flat_intensity [OF flat'] by fastforce
  have fuel: "nat (py_int (max 2880 2880)) \<le> 2880"
    by (simp add: py_int_def)
  from no_significant_sample_no_episode [OF m quiet fuel] m flat show ?thesis
    by blast
qed

subsection \<open>C9: the scan terminates\<close>

text \<open>
  Claim C9. With a look-ahead that is not negative, every iteration of the loop leaves
  the cursor greater than it found it: greater by 1 when no sample is significant, and
  otherwise one past an evaluated sample that is at least \<open>cur + time_min\<close>. On a table with
  at least one row, \<^verbatim>\<open>findGameMomentumEvents\<close> therefore returns within \<^verbatim>\<open>game_duration\<close>
  iterations of the loop.
\<close>

theorem scan_terminates_within_game_duration:
  assumes "0 \<le> time_min"
    and "series_max (map eventClock (events pbpGameData)) = Some m"
    and "nat (py_int (max m 2880)) \<le> fuel"
  shows "(\<forall>gid g cur evs g' cur' evs'.
            scanIteration thr time_min time_max gid (g, cur, evs) = Inr (g', cur', evs') \<longrightarrow>
              cur < cur' \<and>
              (\<exists>ser. calculateExplosiveness g cur time_min time_max = Inr (g', ser) \<and>
                 (if significantMomentumIntervals thr ser = [] then cur' = cur + 1
                  else \<exists>t v. (t, v) \<in> set ser \<and> cur + time_min \<le> t \<and> cur' = t + 1))) \<and>
         (\<exists>f' eps. findGameMomentumEvents fuel pbpGameData thr time_min time_max
                      = Some (Inr (f', eps)))"
proof -
  let ?gd = "py_int (max m 2880)"
  from series_max_gameid [OF assms(2)] obtain gid where
    gid: "series_max (map gameid (events pbpGameData)) = Some gid" by blast
  have ne: "events pbpGameData \<noteq> []"
    using assms(2) by (auto simp: series_max_eq_None)
  have "nat (?gd + 1 - 1) \<le> fuel" using assms(3) by simp
  from scan_terminates [OF assms(1) ne this, of thr time_max gid "[]"] obtain f' evs where
    "scan fuel thr time_min time_max gid ?gd (pbpGameData, 1, []) = Some (Inr (f', evs))"
    by blast
  then have "\<exists>f' eps. findGameMomentumEvents fuel pbpGameData thr time_min time_max
                      = Some (Inr (f', eps))"
    using assms(2) gid by (simp add: findGameMomentumEvents_def)
  moreover have "cur < cur' \<and>
              (\<exists>ser. calculateExplosiveness g cur time_min time_max = Inr (g', ser) \<and>
                 (if significantMomentumIntervals thr ser = [] then cur' = cur + 1
                  else \<exists>t v. (t, v) \<in> set ser \<and> cur + time_min \<le> t \<and> cur' = t + 1))"
    if "scanIteration thr time_min time_max gid (g, cur, evs) = Inr (g', cur', evs')"
    for gid g cur evs g' cur' evs'
    using scanIteration_increases [OF that assms(1)] scanIteration_cursor [OF that] by simp
  ultimately show ?thesis by blast
qed

text \<open>
  The theorem on \<open>game_reversal\<close> with look-ahead 2 to 8.
\<close>

theorem scan_terminates_within_game_duration_witness:
  "(0::int) \<le> 2 \<and> series_max (map eventClock (events game_reversal)) = Some 30 \<and>
   nat (py_int (max 30 2880)) \<le> 2880 \<and>
   (\<exists>f' eps. findGameMomentumEvents 2880 game_reversal (1 / 2) 2 8 = Some (Inr (f', eps)))"
proof -
  have z: "(0::int) \<le> 2" by simp
  have m: "series_max (map eventClock (events game_reversal)) = Some 30"
    by code_simp
  have fuel: "nat (py_int (max 30 2880)) \<le> 2880"
    by (simp add: py_int_def)
  from scan_terminates_within_game_duration [OF z m fuel, of "1 / 2" 8] z m fuel
  show ?thesis by blast
qed

text \<open>
  The hypothesis on \<open>time_min\<close> is needed: on \<open>game_short\<close> with look-ahead \<open>- 3\<close> to
  \<open>- 1\<close>, the iteration at cursor 101 leads to cursor 100 and the iteration at cursor 100
  leads back to 101.
\<close>

lemma negative_time_min_cycles:
  "(case scanIteration (1 / 2) (- 3) (- 1) ''0022300001'' (game_short, 101, []) of
      Inl e \<Rightarrow> None | Inr (f', cur', evs) \<Rightarrow> Some cur') = Some 100 \<and>
   (case scanIteration (1 / 2) (- 3) (- 1) ''0022300001'' (game_short, 100, []) of
      Inl e \<Rightarrow> None | Inr (f', cur', evs) \<Rightarrow> Some cur') = Some 101"
  by code_simp

subsection \<open>C10: the end time of a record lies in the look-ahead window\<close>

text \<open>
  Claim C10. Every record that the scan appends, started from cursor 1 with no record,
  has its \<^verbatim>\<open>end_time\<close> between \<open>build_up_start_time + time_min\<close> and
  \<open>build_up_start_time + time_max\<close>; and so has every episode that
  \<^verbatim>\<open>findGameMomentumEvents\<close> aggregates from them.
\<close>

theorem end_time_within_lookahead:
  assumes "series_max (map eventClock (events pbpGameData)) = Some m"
    and "series_max (map gameid (events pbpGameData)) = Some gid"
    and "scan fuel thr time_min time_max gid (py_int (max m 2880)) (pbpGameData, 1, [])
           = Some (Inr (f', evs))"
  shows "(\<forall>r\<in>set evs. build_up_start_time r + time_min \<le> end_time r \<and>
                      end_time r \<le> build_up_start_time r + time_max) \<and>
         findGameMomentumEvents fuel pbpGameData thr time_min time_max
           = Some (Inr (f', aggregate evs)) \<and>
         (\<forall>e\<in>set (aggregate evs).
            ep_build_up_start_time e + time_min \<le> ep_end_time e \<and>
            ep_end_time e \<le> ep_build_up_start_time e + time_max)"
proof -
  have agg: "aggregate [] = []" by (simp add: aggregate_def)
  from scan_records [OF assms(3)] have recs:
    "\<forall>r\<in>set evs. build_up_start_time r + time_min \<le> end_time r \<and>
                  end_time r \<le> build_up_start_time r + time_max"
    by auto
  have run: "findGameMomentumEvents fuel pbpGameData thr time_min time_max
           = Some (Inr (f', aggregate evs))"
    using assms agg by (simp add: findGameMomentumEvents_def)
  have "ep_build_up_start_time e + time_min \<le> ep_end_time e \<and>
        ep_end_time e \<le> ep_build_up_start_time e + time_max"
    if "e \<in> set (aggregate evs)" for e
  proof -
    from that obtain r rs where
      g: "filter (\<lambda>x. build_up_start_time x = ep_build_up_start_time e) evs = r # rs"
      and e: "aggregate_group (ep_build_up_start_time e) (r # rs) = [e]"
      by (rule aggregate_mem)
    have "ep_end_time e = Max (end_time ` set (r # rs))"
      using e by (rule aggregate_group_fields)
    moreover have "Max (end_time ` set (r # rs)) \<in> end_time ` set (r # rs)"
      by (rule Max_in) simp_all
    ultimately obtain x where x: "x \<in> set (r # rs)" "end_time x = ep_end_time e"
      by (metis image_iff)
    from x(1) have "x \<in> set evs" "build_up_start_time x = ep_build_up_start_time e"
      using group_mem [OF g, of x] by simp_all
    with recs x(2) show ?thesis by force
  qed
  with recs run show ?thesis by blast
qed

text \<open>
  The theorem on \<open>game_reversal\<close> with threshold 1/2 and look-ahead 2 to 8.
\<close>

theorem end_time_within_lookahead_witness:
  "scan 2880 (1 / 2) 2 8 ''0022300001'' (py_int (max 30 2880)) (game_reversal, 1, [])
     = Some (Inr (game_reversal\<lparr>score_diff := Some [0, 3, 0, - 6, - 6]\<rparr>, reversal_records)) \<and>
   list_all (\<lambda>r. build_up_start_time r + 2 \<le> end_time r \<and>
                 end_time r \<le> build_up_start_time r + 8) reversal_records \<and>
   findGameMomentumEvents 2880 game_reversal (1 / 2) 2 8
     = Some (Inr (game_reversal\<lparr>score_diff := Some [0, 3, 0, - 6, - 6]\<rparr>,
                  aggregate reversal_records)) \<and>
   list_all (\<lambda>e. ep_build_up_start_time e + 2 \<le> ep_end_time e \<and>
                 ep_end_time e \<le> ep_build_up_start_time e + 8) (aggregate reversal_records)"
proof -
  have gd: "py_int (max 30 2880) = 2880" by (simp add: py_int_def)
  have s: "scan 2880 (1 / 2) 2 8 ''0022300001'' (py_int (max 30 2880)) (game_reversal, 1, [])
     = Some (Inr (game_reversal\<lparr>score_diff := Some [0, 3, 0, - 6, - 6]\<rparr>, reversal_records))"
    unfolding gd by (rule game_reversal_scan)
  from end_time_within_lookahead [OF game_reversal_columns s] s
  show ?thesis by (simp add: list_all_iff)
qed

end
